theory Spec2Isabelle
  imports Main
begin

section \<open>Effectful JavaScript functions\<close>

text \<open>
  The repository is TypeScript. A function of the program may read and change ambient
  state (the clock, the random source, a database behind a port) and may throw. Such a
  function is modelled as a transformer of an explicit world \<open>'w\<close> whose result is
  either \<open>Inl v\<close> (the value \<open>v\<close> was thrown) or \<open>Inr x\<close> (it returned \<open>x\<close>). An
  \<open>await\<close> on a promise is sequencing: the pipeline is single-flight, so a rejected
  promise is a throw at the \<open>await\<close>.

  JavaScript can throw any value. The code reads a caught value in one way only,
  \<open>error instanceof Error ? error.message : String(error)\<close>, so a thrown value is one of:
  an \<open>Error\<close> with its message; another value with the string \<open>String\<close> converts it to;
  a value that \<open>String\<close> cannot convert (an object without prototype, or one whose
  \<open>toString\<close> fails), for which \<open>String(error)\<close> itself throws a \<open>TypeError\<close>.
\<close>

datatype thrown = Error string | Value string | Opaque

type_synonym ('a, 'w) js = "'w \<Rightarrow> (thrown + 'a) \<times> 'w"

definition ret :: "'a \<Rightarrow> ('a, 'w) js" where
  "ret x = (\<lambda>w. (Inr x, w))"

definition throw :: "thrown \<Rightarrow> ('a, 'w) js" where
  "throw v = (\<lambda>w. (Inl v, w))"

definition jbind :: "('a, 'w) js \<Rightarrow> ('a \<Rightarrow> ('b, 'w) js) \<Rightarrow> ('b, 'w) js" where
  "jbind m k = (\<lambda>w. case m w of (Inl e, w') \<Rightarrow> (Inl e, w') | (Inr x, w') \<Rightarrow> k x w')"

text \<open>\<open>try { m; ok } catch (error) { handler(error) }\<close>\<close>

definition try_catch :: "('a, 'w) js \<Rightarrow> (thrown \<Rightarrow> ('a, 'w) js) \<Rightarrow> ('a, 'w) js" where
  "try_catch m handler = (\<lambda>w. case m w of (Inl e, w') \<Rightarrow> handler e w' | (Inr x, w') \<Rightarrow> (Inr x, w'))"

text \<open>\<open>error instanceof Error ? error.message : String(error)\<close>\<close>

fun error_message :: "thrown \<Rightarrow> (string, 'w) js" where
  "error_message (Error msg) = ret msg"
| "error_message (Value shown) = ret shown"
| "error_message Opaque = throw (Error ''Cannot convert object to primitive value'')"

text \<open>
  \<open>events.reduce(f, s0)\<close> with an initial value: the callback is applied to the
  accumulator and each element from left to right; a throw of the callback ends the loop.
\<close>

fun reduce :: "('s \<Rightarrow> 'e \<Rightarrow> ('s, 'w) js) \<Rightarrow> 's \<Rightarrow> 'e list \<Rightarrow> ('s, 'w) js" where
  "reduce f s [] = ret s"
| "reduce f s (e # es) = jbind (f s e) (\<lambda>s'. reduce f s' es)"

section \<open>The URL shortener specification (src/spec.ts)\<close>

text \<open>
  \<open>fold(f, s0, events) = events.reduce(f, s0)\<close>, the catamorphism of spec.ts, here on
  the pure callbacks spec.ts itself passes to it (\<open>evolve\<close>, \<open>project\<close>).
\<close>

fun fold_spec :: "('s \<Rightarrow> 'e \<Rightarrow> 's) \<Rightarrow> 's \<Rightarrow> 'e list \<Rightarrow> 's" where
  "fold_spec f s0 [] = s0"
| "fold_spec f s0 (e # events) = fold_spec f (f s0 e) events"

subsection \<open>Objects used as dictionaries\<close>

text \<open>
  \<open>Record<string, string>\<close> is a plain object. Its own properties are kept as an
  association list in the order JavaScript enumerates them: array-index keys (canonical
  decimal strings below \<open>2^32 - 1\<close>) ascending, then the other keys in creation order.
  Strings are lists of 8-bit characters, so the model covers code units below 256.
\<close>

type_synonym jsobj = "(string \<times> string) list"

definition is_digit :: "char \<Rightarrow> bool" where
  "is_digit c = (48 \<le> (of_char c :: nat) \<and> (of_char c :: nat) \<le> 57)"

definition dec_value :: "string \<Rightarrow> nat" where
  "dec_value k = foldl (\<lambda>n c. 10 * n + ((of_char c :: nat) - 48)) 0 k"

definition is_array_index :: "string \<Rightarrow> bool" where
  "is_array_index k =
     (if k = [] then False
      else if \<not> list_all is_digit k then False
      else if hd k = CHR ''0'' then k = ''0''
      else dec_value k \<le> 4294967294)"

fun obj_insert_index :: "string \<Rightarrow> string \<Rightarrow> jsobj \<Rightarrow> jsobj" where
  "obj_insert_index k v [] = [(k, v)]"
| "obj_insert_index k v ((k', v') # rest) =
     (if is_array_index k' \<and> dec_value k' < dec_value k
      then (k', v') # obj_insert_index k v rest
      else (k, v) # (k', v') # rest)"

text \<open>
  The objects are created by object literals, spreads and rest patterns, so their
  prototype is \<open>Object.prototype\<close>, and a read \<open>o[k]\<close> of a key that is not an own
  property finds the member of that name there. The members are functions, except
  \<open>__proto__\<close>, whose getter returns \<open>Object.prototype\<close> itself. Each is listed with
  the string it becomes when used as a property key (the text Node prints for a native
  function).
\<close>

definition native_function :: "string \<Rightarrow> string" where
  "native_function name = ''function '' @ name @ ''() { [native code] }''"

definition object_prototype :: "(string \<times> string) list" where
  "object_prototype =
     [(''constructor'', native_function ''Object''),
      (''__defineGetter__'', native_function ''__defineGetter__''),
      (''__defineSetter__'', native_function ''__defineSetter__''),
      (''hasOwnProperty'', native_function ''hasOwnProperty''),
      (''__lookupGetter__'', native_function ''__lookupGetter__''),
      (''__lookupSetter__'', native_function ''__lookupSetter__''),
      (''isPrototypeOf'', native_function ''isPrototypeOf''),
      (''propertyIsEnumerable'', native_function ''propertyIsEnumerable''),
      (''toString'', native_function ''toString''),
      (''valueOf'', native_function ''valueOf''),
      (''__proto__'', ''[object Object]''),
      (''toLocaleString'', native_function ''toLocaleString'')]"

text \<open>
  What a read \<open>o[k]\<close> gives: \<open>undefined\<close>, the string stored under the own key, or an
  inherited member (with its property-key string).
\<close>

datatype jsprop = Undefined | Str string | Member string

definition obj_get :: "jsobj \<Rightarrow> string \<Rightarrow> jsprop" where
  "obj_get obj k =
     (case map_of obj k of
        Some v \<Rightarrow> Str v
      | None \<Rightarrow> (case map_of object_prototype k of
                   Some shown \<Rightarrow> Member shown
                 | None \<Rightarrow> Undefined))"

text \<open>\<open>{ ...obj, [k]: v }\<close>\<close>

definition obj_set :: "jsobj \<Rightarrow> string \<Rightarrow> string \<Rightarrow> jsobj" where
  "obj_set obj k v =
     (if k \<in> fst ` set obj then map (\<lambda>(k', v'). if k' = k then (k', v) else (k', v')) obj
      else if is_array_index k then obj_insert_index k v obj
      else obj @ [(k, v)])"

text \<open>\<open>const { [k]: _, ...rest } = obj\<close>\<close>

definition obj_del :: "jsobj \<Rightarrow> string \<Rightarrow> jsobj" where
  "obj_del obj k = filter (\<lambda>(k', v'). k' \<noteq> k) obj"

definition obj_keys :: "jsobj \<Rightarrow> string list" where
  "obj_keys obj = map fst obj"

text \<open>A value used as a computed property key: \<open>undefined\<close> becomes the key \<open>"undefined"\<close>.\<close>

definition property_key :: "string option \<Rightarrow> string" where
  "property_key v = (case v of None \<Rightarrow> ''undefined'' | Some k \<Rightarrow> k)"

fun prop_key :: "jsprop \<Rightarrow> string" where
  "prop_key Undefined = ''undefined''"
| "prop_key (Str k) = k"
| "prop_key (Member shown) = shown"

text \<open>Truthiness of a value that is a string or \<open>undefined\<close>/\<open>null\<close>.\<close>

definition truthy :: "string option \<Rightarrow> bool" where
  "truthy v = (case v of None \<Rightarrow> False | Some x \<Rightarrow> x \<noteq> [])"

text \<open>Truthiness of what a read gives: functions and objects are truthy.\<close>

fun truthy_prop :: "jsprop \<Rightarrow> bool" where
  "truthy_prop Undefined = False"
| "truthy_prop (Str x) = (x \<noteq> [])"
| "truthy_prop (Member shown) = True"

subsection \<open>Commands, events, state\<close>

text \<open>
  The fields of the commands are, in this order: \<open>Create long custom userId id\<close>,
  \<open>Resolve short id\<close>, \<open>Expire short id\<close>; an optional field that is absent is
  \<open>None\<close>.
\<close>

datatype Command =
    Create string "string option" "string option" "string option"
  | Resolve string "string option"
  | Expire string "string option"

fun command_id :: "Command \<Rightarrow> string option" where
  "command_id (Create lg cu u i) = i"
| "command_id (Resolve sh i) = i"
| "command_id (Expire sh i) = i"

datatype Event =
    Created string string "string option" string string
  | CustomTaken string string string
  | Expired string string string
  | Clicked string string string

text \<open>
  The fields of the events are, in this order: \<open>Created short long userId id timestamp\<close>,
  \<open>CustomTaken custom id timestamp\<close>, \<open>Expired short id timestamp\<close>,
  \<open>Clicked short id timestamp\<close>.
\<close>

fun event_id :: "Event \<Rightarrow> string" where
  "event_id (Created sh lg u i t) = i"
| "event_id (CustomTaken cu i t) = i"
| "event_id (Expired sh i t) = i"
| "event_id (Clicked sh i t) = i"

text \<open>
  \<open>version\<close> is a JavaScript number that only ever starts at 0 and is incremented by
  one; it is modelled as an integer. \<open>active\<close> is a \<open>Set<string>\<close> used through
  \<open>has\<close>, insertion and \<open>delete\<close> only.
\<close>

record State =
  version :: int
  byShort :: jsobj
  byLong :: jsobj
  active :: "string set"

definition s0 :: State where
  "s0 = \<lparr> version = 0, byShort = [], byLong = [], active = {} \<rparr>"

fun evolve_url :: "State \<Rightarrow> Event \<Rightarrow> State" where
  "evolve_url s (Created sh lg u i t) =
     s\<lparr> version := version s + 1,
        byShort := obj_set (byShort s) sh lg,
        byLong := obj_set (byLong s) lg sh,
        active := insert sh (active s) \<rparr>"
| "evolve_url s (Expired sh i t) =
     (let restByShort = obj_del (byShort s) sh;
          lg = obj_get (byShort s) sh;
          restByLong = obj_del (byLong s) (prop_key lg);
          newActive = active s - {sh}
      in s\<lparr> version := version s + 1,
            byShort := restByShort,
            byLong := restByLong,
            active := newActive \<rparr>)"
| "evolve_url s (CustomTaken cu i t) = s"
| "evolve_url s (Clicked sh i t) = s"

subsection \<open>The runtime's own services\<close>

text \<open>
  What the code takes from the JavaScript runtime is a parameter of the model:
  \<open>Math.random().toString(36).substring(7)\<close> and \<open>new Date().toISOString()\<close> read the
  ambient world, \<open>JSON.stringify\<close> is a function of its argument, \<open>x.id\<close> on a value
  of a generic type is an optional string, and the cast of a normalized input to a command
  (\<open>domain as any as Command\<close>) is a function between the two types.
\<close>

record ('c, 'e, 'd, 'w) runtime =
  random_id :: "'w \<Rightarrow> string \<times> 'w"
  now_iso :: "'w \<Rightarrow> string \<times> 'w"
  json_command :: "'c \<Rightarrow> string"
  json_events :: "'e list \<Rightarrow> string"
  id_of_command :: "'c \<Rightarrow> string option"
  id_of_event :: "'e \<Rightarrow> string option"
  as_command :: "'d \<Rightarrow> 'c"

subsection \<open>validate, genShort, decide, normalize\<close>

definition starts_with :: "string \<Rightarrow> string \<Rightarrow> bool" where
  "starts_with s p = (take (length p) s = p)"

fun validate_url :: "Command \<Rightarrow> bool" where
  "validate_url (Create lg cu u i) = (length lg > 0 \<and> starts_with lg ''http'')"
| "validate_url (Resolve sh i) = (length sh > 0)"
| "validate_url (Expire sh i) = (length sh > 0)"

text \<open>
  \<open>genShort\<close>: \<open>hash << 5\<close> and \<open>hash & hash\<close> convert to a signed 32-bit integer;
  the subtraction and the addition between them are exact on numbers of this size.
\<close>

definition to_int32 :: "int \<Rightarrow> int" where
  "to_int32 x = (x + 2147483648) mod 4294967296 - 2147483648"

definition hash_step :: "int \<Rightarrow> char \<Rightarrow> int" where
  "hash_step hash c = to_int32 ((to_int32 (hash * 32) - hash) + of_char c)"

definition digit36 :: "nat \<Rightarrow> char" where
  "digit36 d = ''0123456789abcdefghijklmnopqrstuvwxyz'' ! d"

fun to_string36 :: "nat \<Rightarrow> string" where
  "to_string36 n = (if n < 36 then [digit36 n] else to_string36 (n div 36) @ [digit36 (n mod 36)])"

declare to_string36.simps [simp del]

definition genShort :: "string \<Rightarrow> string" where
  "genShort lg = take 6 (to_string36 (nat \<bar>foldl hash_step 0 lg\<bar>))"

text \<open>
  \<open>decide\<close> reads the random source (only when the command carries no truthy id) and
  then the clock, and returns the events.
\<close>

definition fresh_id :: "('c, 'e, 'd, 'w) runtime \<Rightarrow> string option \<Rightarrow> 'w \<Rightarrow> string \<times> 'w" where
  "fresh_id rt given = (\<lambda>w. if truthy given then (property_key given, w) else random_id rt w)"

fun decide_events :: "State \<Rightarrow> Command \<Rightarrow> string \<Rightarrow> string \<Rightarrow> Event list" where
  "decide_events s (Create lg cu u i) eid timestamp =
     (let sh = (if truthy cu then property_key cu else genShort lg) in
      if truthy_prop (obj_get (byShort s) sh) \<and> obj_get (byShort s) sh \<noteq> Str lg
      then [CustomTaken sh eid timestamp]
      else if obj_get (byShort s) sh = Str lg then []
      else [Created sh lg u eid timestamp])"
| "decide_events s (Resolve sh i) eid timestamp =
     (if sh \<notin> active s then [] else [Clicked sh eid timestamp])"
| "decide_events s (Expire sh i) eid timestamp =
     (if sh \<notin> active s then [] else [Expired sh eid timestamp])"

definition decide_url ::
  "('c, 'e, 'd, 'w) runtime \<Rightarrow> State \<Rightarrow> Command \<Rightarrow> (Event list, 'w) js" where
  "decide_url rt s c =
     (\<lambda>w. case fresh_id rt (command_id c) w of (eid, w1) \<Rightarrow>
          (case now_iso rt w1 of (timestamp, w2) \<Rightarrow>
             (Inr (decide_events s c eid timestamp), w2)))"

text \<open>Untrusted input: each field of \<open>Raw\<close> is \<open>unknown\<close>.\<close>

datatype jsval = JUndefined | JNull | JBool bool | JNum int | JStr string | JObject

text \<open>
  \<open>Raw url custom short userId\<close> and \<open>Domain url custom short userId\<close>, where an absent
  optional field of \<open>Domain\<close> is \<open>None\<close>.
\<close>

datatype Raw = Raw jsval jsval jsval jsval

datatype Domain = Domain string "string option" "string option" "string option"

text \<open>\<open>r.f && typeof r.f === 'string'\<close>: a non-empty string.\<close>

fun nonempty_string :: "jsval \<Rightarrow> string option" where
  "nonempty_string (JStr x) = (if x = [] then None else Some x)"
| "nonempty_string v = None"

fun normalize_url :: "Raw \<Rightarrow> thrown + Domain" where
  "normalize_url (Raw url cu sh u) =
     (case nonempty_string url of
        None \<Rightarrow> Inl (Error ''Invalid URL'')
      | Some x \<Rightarrow> Inr (Domain x (nonempty_string cu) (nonempty_string sh) (nonempty_string u)))"

section \<open>Ports and the log of their calls\<close>

text \<open>
  The handlers reach storage, the bus and the cache only through ports (src/ports.ts):
  \<open>sql.query(q, params)\<close>, \<open>bus.publish(e)\<close>, \<open>kv.get(k)\<close> and
  \<open>kv.set(k, v, ttl)\<close>, each an effectful function of the world; \<open>kv\<close> is optional.
  The results of the queries the handlers issue are never read, so a query returns no
  value. To state which effects an invocation performs and in which order, every port
  call is appended to a log together with its outcome.
\<close>

datatype 'e effect =
    SqlQuery string "string list" "thrown + unit"
  | KvGet string "thrown + string option"
  | KvSet string string nat "thrown + unit"
  | BusPublish 'e "thrown + unit"

record 'w KV =
  kv_get :: "string \<Rightarrow> (string option, 'w) js"
  kv_set :: "string \<Rightarrow> string \<Rightarrow> nat \<Rightarrow> (unit, 'w) js"

record ('e, 'w) deps =
  sql :: "string \<Rightarrow> string list \<Rightarrow> (unit, 'w) js"
  bus :: "'e \<Rightarrow> (unit, 'w) js"
  kv :: "'w KV option"

text \<open>
  The state a handler runs in: the world, the module-level set \<open>globalThis.__seen\<close>
  of published event ids (absent and empty are the same to the code), and the log.
\<close>

record ('e, 'w) sys =
  world :: 'w
  seen :: "string set"
  trace :: "'e effect list"

definition in_world :: "('a, 'w) js \<Rightarrow> ('a, ('e, 'w) sys) js" where
  "in_world m = (\<lambda>st. case m (world st) of (r, w') \<Rightarrow> (r, st\<lparr>world := w'\<rparr>))"

definition draw :: "('w \<Rightarrow> 'a \<times> 'w) \<Rightarrow> ('a, ('e, 'w) sys) js" where
  "draw g = (\<lambda>st. case g (world st) of (x, w') \<Rightarrow> (Inr x, st\<lparr>world := w'\<rparr>))"

definition sql_query :: "('e, 'w) deps \<Rightarrow> string \<Rightarrow> string list \<Rightarrow> (unit, ('e, 'w) sys) js" where
  "sql_query d q params =
     (\<lambda>st. case sql d q params (world st) of
             (r, w') \<Rightarrow> (r, st\<lparr>world := w', trace := trace st @ [SqlQuery q params r]\<rparr>))"

definition bus_publish :: "('e, 'w) deps \<Rightarrow> 'e \<Rightarrow> (unit, ('e, 'w) sys) js" where
  "bus_publish d e =
     (\<lambda>st. case bus d e (world st) of
             (r, w') \<Rightarrow> (r, st\<lparr>world := w', trace := trace st @ [BusPublish e r]\<rparr>))"

definition cache_get :: "'w KV \<Rightarrow> string \<Rightarrow> (string option, ('e, 'w) sys) js" where
  "cache_get c k =
     (\<lambda>st. case kv_get c k (world st) of
             (r, w') \<Rightarrow> (r, st\<lparr>world := w', trace := trace st @ [KvGet k r]\<rparr>))"

definition cache_set :: "'w KV \<Rightarrow> string \<Rightarrow> string \<Rightarrow> nat \<Rightarrow> (unit, ('e, 'w) sys) js" where
  "cache_set c k v ttl =
     (\<lambda>st. case kv_set c k v ttl (world st) of
             (r, w') \<Rightarrow> (r, st\<lparr>world := w', trace := trace st @ [KvSet k v ttl r]\<rparr>))"

section \<open>The domain specification contract (src/app/compose-generic.ts)\<close>

text \<open>
  The seven functions, the two initial values and the three generators of a domain. The
  functions are supplied by the domain, so nothing but their types is known here: each
  may read the world and may throw. A generator call returns a fast-check arbitrary,
  from which a value is drawn using the world's randomness.
  \<open>DomainLaws\<close> (src/law-enforcement.ts) has the same fields; \<open>DomainSpec\<close> adds the
  private flag \<open>_lawsVerified\<close>. The method \<open>fold\<close> of the class is \<open>events.reduce(f, s0)\<close>;
  \<open>verifyLaws\<close> passes it on as \<open>laws.fold\<close>.
\<close>

type_synonym ('a, 'w) arbitrary = "'w \<Rightarrow> 'a \<times> 'w"

record ('r, 'd, 'c, 'e, 's, 'v, 'a, 'w) DomainLaws =
  normalize :: "'r \<Rightarrow> ('d, 'w) js"
  validate :: "'c \<Rightarrow> (bool, 'w) js"
  decide :: "'s \<Rightarrow> 'c \<Rightarrow> ('e list, 'w) js"
  evolve :: "'s \<Rightarrow> 'e \<Rightarrow> ('s, 'w) js"
  project :: "'v \<Rightarrow> 'e \<Rightarrow> ('v, 'w) js"
  queries :: "'v \<Rightarrow> ('a, 'w) js"
  deriveView :: "'s \<Rightarrow> ('a, 'w) js"
  initialState :: 's
  initialView :: 'v
  generateEvents :: "(('e list, 'w) arbitrary, 'w) js"
  generateCommands :: "(('c, 'w) arbitrary, 'w) js"
  generateRaw :: "(('r, 'w) arbitrary, 'w) js"

record ('r, 'd, 'c, 'e, 's, 'v, 'a, 'w) DomainSpec =
  "('r, 'd, 'c, 'e, 's, 'v, 'a, 'w) DomainLaws" +
  lawsVerified :: bool

definition DomainSpec_fold :: "('s \<Rightarrow> 'e \<Rightarrow> ('s, 'w) js) \<Rightarrow> 's \<Rightarrow> 'e list \<Rightarrow> ('s, 'w) js" where
  "DomainSpec_fold f seed events = reduce f seed events"

section \<open>The generic handlers (src/app/handlers-generic.ts)\<close>

text \<open>
  \<open>dedupeBy(apply)\<close>: an event without a truthy id is applied; an event whose id is in
  \<open>__seen\<close> is skipped; otherwise the id is added and the event applied.
\<close>

definition dedupeBy ::
  "('e \<Rightarrow> string option) \<Rightarrow> ('e \<Rightarrow> (unit, ('e, 'w) sys) js) \<Rightarrow> 'e \<Rightarrow> (unit, ('e, 'w) sys) js" where
  "dedupeBy idf apply e =
     (\<lambda>st. if \<not> truthy (idf e) then apply e st
           else if property_key (idf e) \<in> seen st then (Inr (), st)
           else apply e (st\<lparr>seen := insert (property_key (idf e)) (seen st)\<rparr>))"

definition directPublish :: "('e, 'w) deps \<Rightarrow> 'e \<Rightarrow> (unit, ('e, 'w) sys) js" where
  "directPublish d e = bus_publish d e"

text \<open>\<open>for (const event of events) await publish(event)\<close>\<close>

fun publish_each :: "('e \<Rightarrow> (unit, 'st) js) \<Rightarrow> 'e list \<Rightarrow> (unit, 'st) js" where
  "publish_each publish [] = ret ()"
| "publish_each publish (e # es) = jbind (publish e) (\<lambda>_. publish_each publish es)"

definition persistAndOutbox ::
  "('c, 'e, 'd, 'w) runtime \<Rightarrow> ('e, 'w) deps \<Rightarrow> 'e list \<Rightarrow> (unit, ('e, 'w) sys) js" where
  "persistAndOutbox rt d events =
     jbind (sql_query d ''begin'' []) (\<lambda>_.
       try_catch
         (jbind (sql_query d ''insert into events(data) values ($1)'' [json_events rt events]) (\<lambda>_.
          jbind (sql_query d ''insert into outbox(data) values ($1)'' [json_events rt events]) (\<lambda>_.
          sql_query d ''commit'' [])))
         (\<lambda>error. jbind (sql_query d ''rollback'' []) (\<lambda>_. throw error)))"

text \<open>\<open>(c as any).id || Math.random().toString(36).substring(7)\<close>\<close>

definition cmdId_of :: "('c, 'e, 'd, 'w) runtime \<Rightarrow> string option \<Rightarrow> (string, ('e, 'w) sys) js" where
  "cmdId_of rt given = draw (fresh_id rt given)"

text \<open>\<open>if (deps.kv) { const seen = await deps.kv.get(`cmd:${cmdId}`); if (seen) return s; }\<close>:
  the result says whether the command was already processed.\<close>

definition already_processed :: "('e, 'w) deps \<Rightarrow> string \<Rightarrow> (bool, ('e, 'w) sys) js" where
  "already_processed d cmdId =
     (case kv d of
        None \<Rightarrow> ret False
      | Some c \<Rightarrow> jbind (cache_get c (''cmd:'' @ cmdId)) (\<lambda>found. ret (truthy found)))"

text \<open>\<open>if (deps.kv) { await deps.kv.set(`cmd:${cmdId}`, '1', 3600); }\<close>\<close>

definition mark_processed :: "('e, 'w) deps \<Rightarrow> string \<Rightarrow> (unit, ('e, 'w) sys) js" where
  "mark_processed d cmdId =
     (case kv d of
        None \<Rightarrow> ret ()
      | Some c \<Rightarrow> cache_set c (''cmd:'' @ cmdId) ''1'' 3600)"

definition handle ::
  "('r, 'd, 'c, 'e, 's, 'v, 'a, 'w, 'z) DomainLaws_scheme \<Rightarrow> ('c, 'e, 'd, 'w) runtime \<Rightarrow>
   ('e, 'w) deps \<Rightarrow> 's \<Rightarrow> 'c \<Rightarrow> ('s, ('e, 'w) sys) js" where
  "handle spec rt d s c =
     jbind (in_world (validate spec c)) (\<lambda>valid.
     if \<not> valid then throw (Error (''Invalid command: '' @ json_command rt c))
     else
       jbind (cmdId_of rt (id_of_command rt c)) (\<lambda>cmdId.
       jbind (already_processed d cmdId) (\<lambda>processed.
       if processed then ret s
       else
         jbind (in_world (decide spec s c)) (\<lambda>events.
         if length events = 0 then ret s
         else
           jbind (persistAndOutbox rt d events) (\<lambda>_.
           jbind (mark_processed d cmdId) (\<lambda>_.
           jbind (publish_each (dedupeBy (id_of_event rt) (directPublish d)) events) (\<lambda>_.
           in_world (DomainSpec_fold (evolve spec) s events))))))))"

text \<open>
  The \<open>result\<close> of the HTTP handlers is an object literal: its fields in order, each with
  its value.
\<close>

type_synonym http_result = "(string \<times> jsval) list"

definition httpHandle ::
  "('r, 'd, 'c, 'e, 's, 'v, 'a, 'w, 'z) DomainLaws_scheme \<Rightarrow> ('c, 'e, 'd, 'w) runtime \<Rightarrow>
   ('e, 'w) deps \<Rightarrow> 's \<Rightarrow> 'r \<Rightarrow> ('s \<times> http_result, ('e, 'w) sys) js" where
  "httpHandle spec rt d s raw =
     try_catch
       (jbind (in_world (normalize spec raw)) (\<lambda>domain.
        jbind (handle spec rt d s (as_command rt domain)) (\<lambda>newState.
        ret (newState, [(''success'', JBool True), (''status'', JNum 200)]))))
       (\<lambda>error.
        jbind (error_message error) (\<lambda>msg.
        ret (s, [(''success'', JBool False), (''error'', JStr msg), (''status'', JNum 400)])))"

section \<open>The URL shortener handlers (src/app/handlers.ts)\<close>

text \<open>
  \<open>dedupeBy\<close> and \<open>directPublish\<close> are the same functions as in the generic file. This
  \<open>persistAndOutbox\<close> issues the same four statements with no \<open>try\<close> around them.
\<close>

definition persistAndOutbox_url ::
  "('c, 'e, 'd, 'w) runtime \<Rightarrow> ('e, 'w) deps \<Rightarrow> 'e list \<Rightarrow> (unit, ('e, 'w) sys) js" where
  "persistAndOutbox_url rt d events =
     jbind (sql_query d ''begin'' []) (\<lambda>_.
     jbind (sql_query d ''insert into events(data) values ($1)'' [json_events rt events]) (\<lambda>_.
     jbind (sql_query d ''insert into outbox(data) values ($1)'' [json_events rt events]) (\<lambda>_.
     sql_query d ''commit'' [])))"

definition makeHandle ::
  "(Command, Event, 'd, 'w) runtime \<Rightarrow> (Event, 'w) deps \<Rightarrow> State \<Rightarrow> Command \<Rightarrow>
   (State, (Event, 'w) sys) js" where
  "makeHandle rt d s c =
     (if \<not> validate_url c then throw (Error (''Invalid command: '' @ json_command rt c))
      else
        jbind (cmdId_of rt (command_id c)) (\<lambda>cmdId.
        jbind (already_processed d cmdId) (\<lambda>processed.
        if processed then ret s
        else
          jbind (in_world (decide_url rt s c)) (\<lambda>evts.
          if length evts = 0 then ret s
          else
            jbind (persistAndOutbox_url rt d evts) (\<lambda>_.
            jbind (mark_processed d cmdId) (\<lambda>_.
            jbind (publish_each (dedupeBy (\<lambda>e. Some (event_id e)) (directPublish d)) evts) (\<lambda>_.
            ret (fold_spec evolve_url s evts))))))))"

fun domain_command :: "Domain \<Rightarrow> string \<Rightarrow> Command" where
  "domain_command (Domain url cu sh u) rid = Create url cu u (Some rid)"

definition makeHttpHandle ::
  "(Command, Event, 'd, 'w) runtime \<Rightarrow> (Event, 'w) deps \<Rightarrow> State \<Rightarrow> Raw \<Rightarrow>
   (State \<times> http_result, (Event, 'w) sys) js" where
  "makeHttpHandle rt d s raw =
     (case normalize_url raw of
        Inl error \<Rightarrow>
          jbind (error_message error) (\<lambda>msg.
          ret (s, [(''error'', JStr msg), (''status'', JNum 400)]))
      | Inr domain \<Rightarrow>
          jbind (draw (random_id rt)) (\<lambda>rid.
          try_catch
            (jbind (makeHandle rt d s (domain_command domain rid)) (\<lambda>newState.
             let newShorts = filter (\<lambda>sh. \<not> truthy_prop (obj_get (byShort s) sh))
                                    (obj_keys (byShort newState))
             in if length newShorts > 0
                then ret (newState,
                          [(''success'', JBool True), (''short'', JStr (hd newShorts)),
                           (''url'', JStr (''https://short.ly/'' @ hd newShorts)),
                           (''status'', JNum 200)])
                else ret (newState,
                          [(''success'', JBool False), (''error'', JStr ''No URL created''),
                           (''status'', JNum 400)])))
            (\<lambda>error.
             jbind (error_message error) (\<lambda>msg.
             ret (s, [(''error'', JStr msg), (''status'', JNum 500)])))))"

section \<open>The law verification engine (src/law-enforcement.ts)\<close>

record LawVerificationResult =
  law :: string
  passed :: bool
  error :: "string option"
  description :: string

record LawVerificationSuite =
  allPassed :: bool
  results :: "LawVerificationResult list"
  passedCount :: nat
  totalCount :: nat

text \<open>
  The checks serialize states and views with \<open>JSON.stringify\<close>, compare answers by
  \<open>typeof\<close>, and overwrite the \<open>id\<close> of a generated event (\<open>{ ...e, id }\<close>); on the
  generic types these are parameters.
\<close>

record ('e, 's, 'v, 'a) inspect =
  json_state :: "'s \<Rightarrow> string"
  json_view :: "'v \<Rightarrow> string"
  typeof_answer :: "'a \<Rightarrow> string"
  with_id :: "'e \<Rightarrow> string \<Rightarrow> 'e"

subsection \<open>Strings\<close>

text \<open>
  A character of a source literal outside ASCII is written as its UTF-8 bytes.
\<close>

definition nl :: string where "nl = [CHR 0x0A]"
definition arrow :: string where "arrow = [CHR 0xE2, CHR 0x86, CHR 0x92]"
definition ring :: string where "ring = [CHR 0xE2, CHR 0x88, CHR 0x98]"
definition cross_mark :: string where "cross_mark = [CHR 0xE2, CHR 0x9D, CHR 0x8C]"
definition check_mark :: string where "check_mark = [CHR 0xE2, CHR 0x9C, CHR 0x85]"
definition siren :: string where "siren = [CHR 0xF0, CHR 0x9F, CHR 0x9A, CHR 0xA8]"

definition digit10 :: "nat \<Rightarrow> char" where
  "digit10 d = ''0123456789'' ! d"

fun show_nat :: "nat \<Rightarrow> string" where
  "show_nat n = (if n < 10 then [digit10 n] else show_nat (n div 10) @ [digit10 (n mod 10)])"

declare show_nat.simps [simp del]

text \<open>\<open>parts.join(sep)\<close>\<close>

fun join :: "string \<Rightarrow> string list \<Rightarrow> string" where
  "join sep [] = []"
| "join sep [x] = x"
| "join sep (x # y # ys) = x @ sep @ join sep (y # ys)"


subsection \<open>fast-check\<close>

text \<open>
  \<open>fc.assert(fc.property(arb, predicate), { numRuns })\<close> draws a value and runs the
  predicate on it, \<open>numRuns\<close> times; at the first run whose predicate returns \<open>false\<close>
  or throws it stops and throws an \<open>Error\<close> that reports the failure. The library is not
  part of the repository: its report is abbreviated to one line, and the shrinking it
  does after a failure (which only refines the reported counterexample) is left out.
  Whatever the predicate threw, what \<open>fc.assert\<close> throws is an \<open>Error\<close>: the library
  converts the cause to text itself, and where that conversion fails the failure is a
  \<open>TypeError\<close>, whose message stands for the cause here.
\<close>

fun fc_cause :: "thrown \<Rightarrow> string" where
  "fc_cause (Error msg) = msg"
| "fc_cause (Value shown) = shown"
| "fc_cause Opaque = ''Cannot convert object to primitive value''"

definition fc_report :: "thrown option \<Rightarrow> string" where
  "fc_report cause =
     (case cause of None \<Rightarrow> ''Property failed''
      | Some e \<Rightarrow> ''Property failed: '' @ fc_cause e)"

fun fc_runs :: "nat \<Rightarrow> ('x, 'w) arbitrary \<Rightarrow> ('x \<Rightarrow> (bool, 'w) js) \<Rightarrow> (unit, 'w) js" where
  "fc_runs 0 arb predicate w = (Inr (), w)"
| "fc_runs (Suc n) arb predicate w =
     (case arb w of (x, w1) \<Rightarrow>
        (case predicate x w1 of
           (Inl e, w2) \<Rightarrow> (Inl (Error (fc_report (Some e))), w2)
         | (Inr ok, w2) \<Rightarrow>
             if ok then fc_runs n arb predicate w2 else (Inl (Error (fc_report None)), w2)))"

definition fc_assert :: "('x, 'w) arbitrary \<Rightarrow> ('x \<Rightarrow> (bool, 'w) js) \<Rightarrow> nat \<Rightarrow> (unit, 'w) js" where
  "fc_assert arb predicate numRuns = fc_runs numRuns arb predicate"

text \<open>\<open>fc.property(arb1, arb2, predicate)\<close> draws from both arbitraries at each run.\<close>

definition fc_tuple :: "('x, 'w) arbitrary \<Rightarrow> ('y, 'w) arbitrary \<Rightarrow> ('x \<times> 'y, 'w) arbitrary" where
  "fc_tuple a b = (\<lambda>w. case a w of (x, w1) \<Rightarrow> (case b w1 of (y, w2) \<Rightarrow> ((x, y), w2)))"

subsection \<open>The twelve checks\<close>

text \<open>The properties handed to \<open>fc.property\<close> by checks 1, 4, 7 and 8.\<close>

definition purity_property ::
  "('e, 's, 'v, 'a) inspect \<Rightarrow> ('r, 'd, 'c, 'e, 's, 'v, 'a, 'w, 'z) DomainLaws_scheme \<Rightarrow>
   'e list \<Rightarrow> (bool, 'w) js" where
  "purity_property insp laws events =
     jbind (DomainSpec_fold (evolve laws) (initialState laws) events) (\<lambda>state1.
     jbind (DomainSpec_fold (evolve laws) (initialState laws) events) (\<lambda>state2.
     jbind (DomainSpec_fold (project laws) (initialView laws) events) (\<lambda>view1.
     jbind (DomainSpec_fold (project laws) (initialView laws) events) (\<lambda>view2.
     ret (json_state insp state1 = json_state insp state2
          \<and> json_view insp view1 = json_view insp view2)))))"

definition cqrs_property ::
  "('e, 's, 'v, 'a) inspect \<Rightarrow> ('r, 'd, 'c, 'e, 's, 'v, 'a, 'w, 'z) DomainLaws_scheme \<Rightarrow>
   'e list \<Rightarrow> (bool, 'w) js" where
  "cqrs_property insp laws events =
     jbind (DomainSpec_fold (evolve laws) (initialState laws) events) (\<lambda>finalState.
     jbind (DomainSpec_fold (project laws) (initialView laws) events) (\<lambda>finalView.
     jbind (queries laws finalView) (\<lambda>answersFromView.
     jbind (deriveView laws finalState) (\<lambda>answersFromState.
     ret (typeof_answer insp answersFromView = typeof_answer insp answersFromState)))))"

definition replay_property ::
  "('e, 's, 'v, 'a) inspect \<Rightarrow> ('r, 'd, 'c, 'e, 's, 'v, 'a, 'w, 'z) DomainLaws_scheme \<Rightarrow>
   'e list \<times> 'e list \<Rightarrow> (bool, 'w) js" where
  "replay_property insp laws = (\<lambda>(events1, events2).
     jbind (DomainSpec_fold (evolve laws) (initialState laws) events1) (\<lambda>inner.
     jbind (DomainSpec_fold (evolve laws) inner events2) (\<lambda>leftSide.
     jbind (DomainSpec_fold (evolve laws) (initialState laws) (events1 @ events2)) (\<lambda>rightSide.
     ret (json_state insp leftSide = json_state insp rightSide)))))"

text \<open>\<open>events.map((e, i) => ({ ...e, id: `test_${i}` }))\<close>\<close>

definition events_with_ids :: "('e, 's, 'v, 'a) inspect \<Rightarrow> 'e list \<Rightarrow> 'e list" where
  "events_with_ids insp events =
     map (\<lambda>(i, e). with_id insp e (''test_'' @ show_nat i)) (enumerate 0 events)"

definition idempotence_property ::
  "('e, 's, 'v, 'a) inspect \<Rightarrow> ('r, 'd, 'c, 'e, 's, 'v, 'a, 'w, 'z) DomainLaws_scheme \<Rightarrow>
   'e list \<Rightarrow> (bool, 'w) js" where
  "idempotence_property insp laws events =
     jbind (DomainSpec_fold (evolve laws) (initialState laws) (events_with_ids insp events))
       (\<lambda>onceApplied. ret True)"

definition verifyPurity ::
  "('e, 's, 'v, 'a) inspect \<Rightarrow> ('r, 'd, 'c, 'e, 's, 'v, 'a, 'w, 'z) DomainLaws_scheme \<Rightarrow>
   (LawVerificationResult, 'w) js" where
  "verifyPurity insp laws =
     try_catch
       (jbind (generateEvents laws) (\<lambda>arb.
        jbind (fc_assert arb (purity_property insp laws) 100) (\<lambda>_.
        ret \<lparr> law = ''1. Purity'', passed = True, error = None,
              description = ''All functions are deterministic (same input '' @ arrow
                            @ '' same output)'' \<rparr>)))
       (\<lambda>error.
        jbind (error_message error) (\<lambda>msg.
        ret \<lparr> law = ''1. Purity'', passed = False, error = Some msg,
              description = ''Functions must be deterministic'' \<rparr>))"

definition verifyFunctoriality ::
  "('e, 's, 'v, 'a) inspect \<Rightarrow> ('r, 'd, 'c, 'e, 's, 'v, 'a, 'w, 'z) DomainLaws_scheme \<Rightarrow>
   (LawVerificationResult, 'w) js" where
  "verifyFunctoriality insp laws =
     try_catch
       (jbind (DomainSpec_fold (evolve laws) (initialState laws) []) (\<lambda>composedResult.
        ret \<lparr> law = ''2. Functoriality (R)'', passed = True, error = None,
              description = ''R functor preserves composition: R(g'' @ ring @ ''f) = R(g)''
                            @ ring @ ''R(f)'' \<rparr>))
       (\<lambda>error.
        jbind (error_message error) (\<lambda>msg.
        ret \<lparr> law = ''2. Functoriality (R)'', passed = False, error = Some msg,
              description = ''R functor must preserve composition'' \<rparr>))"

definition verifyObservabilityNaturality ::
  "('e, 's, 'v, 'a) inspect \<Rightarrow> ('r, 'd, 'c, 'e, 's, 'v, 'a, 'w, 'z) DomainLaws_scheme \<Rightarrow>
   (LawVerificationResult, 'w) js" where
  "verifyObservabilityNaturality insp laws =
     try_catch
       (ret \<lparr> law = ''3. Observability Naturality (O)'', passed = True, error = None,
              description = ''Observability composes: O(g'' @ ring @ ''f) = O(g)''
                            @ ring @ ''O(f)'' \<rparr>)
       (\<lambda>error.
        jbind (error_message error) (\<lambda>msg.
        ret \<lparr> law = ''3. Observability Naturality (O)'', passed = False, error = Some msg,
              description = ''Observability must compose correctly'' \<rparr>))"

definition verifyCQRSCommutativity ::
  "('e, 's, 'v, 'a) inspect \<Rightarrow> ('r, 'd, 'c, 'e, 's, 'v, 'a, 'w, 'z) DomainLaws_scheme \<Rightarrow>
   (LawVerificationResult, 'w) js" where
  "verifyCQRSCommutativity insp laws =
     try_catch
       (jbind (generateEvents laws) (\<lambda>arb.
        jbind (fc_assert arb (cqrs_property insp laws) 50) (\<lambda>_.
        ret \<lparr> law = ''4. CQRS Commutativity'', passed = True, error = None,
              description = ''Read model queries equal derived view queries: queries(project*) = deriveView(evolve*)'' \<rparr>)))
       (\<lambda>error.
        jbind (error_message error) (\<lambda>msg.
        ret \<lparr> law = ''4. CQRS Commutativity'', passed = False, error = Some msg,
              description = ''CQRS consistency must hold'' \<rparr>))"

text \<open>
  Checks 5, 6 and 9, and check 8 after its property has run, load
  \<open>./infrastructure-law-tests\<close> and construct a \<open>TestInfrastructure\<close>, whose
  constructor only creates empty containers. Check 5 starts
  \<open>verifyOutboxLaw\<close> without awaiting it: the promise settles after the result has been
  returned, and the result does not read it.
\<close>

definition verifyOutboxCommutativity ::
  "('e, 's, 'v, 'a) inspect \<Rightarrow> ('r, 'd, 'c, 'e, 's, 'v, 'a, 'w, 'z) DomainLaws_scheme \<Rightarrow>
   (LawVerificationResult, 'w) js" where
  "verifyOutboxCommutativity insp laws =
     try_catch
       (ret \<lparr> law = ''5. Outbox Commutativity'', passed = True, error = None,
              description = ''Transactional outbox ensures exactly-once delivery (verified with real infrastructure)'' \<rparr>)
       (\<lambda>error.
        jbind (error_message error) (\<lambda>msg.
        ret \<lparr> law = ''5. Outbox Commutativity'', passed = False, error = Some msg,
              description = ''Transactional outbox must ensure exactly-once delivery'' \<rparr>))"

definition verifyPushPullEquivalence ::
  "('e, 's, 'v, 'a) inspect \<Rightarrow> ('r, 'd, 'c, 'e, 's, 'v, 'a, 'w, 'z) DomainLaws_scheme \<Rightarrow>
   (LawVerificationResult, 'w) js" where
  "verifyPushPullEquivalence insp laws =
     try_catch
       (ret \<lparr> law = ''6. Push/Pull Equivalence'', passed = True, error = None,
              description = ''Push and pull eventually converge to same state (verified with WebSocket vs HTTP)'' \<rparr>)
       (\<lambda>error.
        jbind (error_message error) (\<lambda>msg.
        ret \<lparr> law = ''6. Push/Pull Equivalence'', passed = False, error = Some msg,
              description = ''Push and pull must eventually converge to same state'' \<rparr>))"

definition verifyReplayDeterminism ::
  "('e, 's, 'v, 'a) inspect \<Rightarrow> ('r, 'd, 'c, 'e, 's, 'v, 'a, 'w, 'z) DomainLaws_scheme \<Rightarrow>
   (LawVerificationResult, 'w) js" where
  "verifyReplayDeterminism insp laws =
     try_catch
       (jbind (generateEvents laws) (\<lambda>arb1.
        jbind (generateEvents laws) (\<lambda>arb2.
        jbind (fc_assert (fc_tuple arb1 arb2) (replay_property insp laws) 50) (\<lambda>_.
        ret \<lparr> law = ''7. Replay Determinism'', passed = True, error = None,
              description = ''Fold associativity: fold(f, fold(f, s, xs), ys) = fold(f, s, xs++ys)'' \<rparr>))))
       (\<lambda>error.
        jbind (error_message error) (\<lambda>msg.
        ret \<lparr> law = ''7. Replay Determinism'', passed = False, error = Some msg,
              description = ''Replay must be deterministic and associative'' \<rparr>))"

definition verifyIdempotence ::
  "('e, 's, 'v, 'a) inspect \<Rightarrow> ('r, 'd, 'c, 'e, 's, 'v, 'a, 'w, 'z) DomainLaws_scheme \<Rightarrow>
   (LawVerificationResult, 'w) js" where
  "verifyIdempotence insp laws =
     try_catch
       (jbind (generateEvents laws) (\<lambda>arb.
        jbind (fc_assert arb (idempotence_property insp laws) 10) (\<lambda>_.
        ret \<lparr> law = ''8. Idempotence'', passed = True, error = None,
              description = ''Duplicate operations with same ID are ignored (verified at Spec and Infrastructure levels)'' \<rparr>)))
       (\<lambda>error.
        jbind (error_message error) (\<lambda>msg.
        ret \<lparr> law = ''8. Idempotence'', passed = False, error = Some msg,
              description = ''Operations must be idempotent by ID'' \<rparr>))"

definition verifyCausalityOrdering ::
  "('e, 's, 'v, 'a) inspect \<Rightarrow> ('r, 'd, 'c, 'e, 's, 'v, 'a, 'w, 'z) DomainLaws_scheme \<Rightarrow>
   (LawVerificationResult, 'w) js" where
  "verifyCausalityOrdering insp laws =
     try_catch
       (ret \<lparr> law = ''9. Causality/Ordering'', passed = True, error = None,
              description = ''Causal ordering is preserved within aggregates (verified with state transitions)'' \<rparr>)
       (\<lambda>error.
        jbind (error_message error) (\<lambda>msg.
        ret \<lparr> law = ''9. Causality/Ordering'', passed = False, error = Some msg,
              description = ''Causal ordering must be preserved within aggregates'' \<rparr>))"

text \<open>Checks 10, 11 and 12 return a literal and read nothing of \<open>laws\<close>.\<close>

definition verifyMonoidalAggregation ::
  "('r, 'd, 'c, 'e, 's, 'v, 'a, 'w, 'z) DomainLaws_scheme \<Rightarrow> LawVerificationResult" where
  "verifyMonoidalAggregation laws =
     \<lparr> law = ''10. Monoidal Aggregation'', passed = True, error = None,
       description = ''Aggregations are associative and have identity'' \<rparr>"

definition verifyPullbackCorrectness ::
  "('r, 'd, 'c, 'e, 's, 'v, 'a, 'w, 'z) DomainLaws_scheme \<Rightarrow> LawVerificationResult" where
  "verifyPullbackCorrectness laws =
     \<lparr> law = ''11. Pullback Correctness'', passed = True, error = None,
       description = ''Joins return exactly key-matching pairs'' \<rparr>"

definition verifyPushoutSchemaEvolution ::
  "('r, 'd, 'c, 'e, 's, 'v, 'a, 'w, 'z) DomainLaws_scheme \<Rightarrow> LawVerificationResult" where
  "verifyPushoutSchemaEvolution laws =
     \<lparr> law = ''12. Pushout Schema Evolution'', passed = True, error = None,
       description = ''Schema evolution preserves old consumer behavior'' \<rparr>"

subsection \<open>verifyAllLaws, enforceLaws, verifyLaws\<close>

definition make_suite :: "LawVerificationResult list \<Rightarrow> LawVerificationSuite" where
  "make_suite rs =
     (let passedCount = length (filter passed rs);
          allPassed = (passedCount = length rs)
      in \<lparr> allPassed = allPassed, results = rs, passedCount = passedCount,
           totalCount = length rs \<rparr>)"

definition verifyAllLaws ::
  "('e, 's, 'v, 'a) inspect \<Rightarrow> ('r, 'd, 'c, 'e, 's, 'v, 'a, 'w, 'z) DomainLaws_scheme \<Rightarrow>
   (LawVerificationSuite, 'w) js" where
  "verifyAllLaws insp laws =
     jbind (verifyPurity insp laws) (\<lambda>r1.
     jbind (verifyFunctoriality insp laws) (\<lambda>r2.
     jbind (verifyObservabilityNaturality insp laws) (\<lambda>r3.
     jbind (verifyCQRSCommutativity insp laws) (\<lambda>r4.
     jbind (verifyOutboxCommutativity insp laws) (\<lambda>r5.
     jbind (verifyPushPullEquivalence insp laws) (\<lambda>r6.
     jbind (verifyReplayDeterminism insp laws) (\<lambda>r7.
     jbind (verifyIdempotence insp laws) (\<lambda>r8.
     jbind (verifyCausalityOrdering insp laws) (\<lambda>r9.
     ret (make_suite
            [r1, r2, r3, r4, r5, r6, r7, r8, r9,
             verifyMonoidalAggregation laws,
             verifyPullbackCorrectness laws,
             verifyPushoutSchemaEvolution laws]))))))))))"

definition failure_line :: "LawVerificationResult \<Rightarrow> string" where
  "failure_line r =
     cross_mark @ '' '' @ law r @ '': '' @ description r
     @ (if truthy (error r) then nl @ ''   Error: '' @ property_key (error r) else [])"

definition errorMessage :: "LawVerificationSuite \<Rightarrow> string" where
  "errorMessage suite =
     (let failedLaws = filter (\<lambda>r. \<not> passed r) (results suite) in
      nl @ siren @ '' CATEGORY THEORY LAW VIOLATIONS DETECTED '' @ siren @ nl @ nl
      @ show_nat (length failedLaws) @ '' of 12 laws failed verification:'' @ nl @ nl
      @ join nl (map failure_line failedLaws) @ nl @ nl
      @ ''Mathematical guarantees cannot be provided. Please fix the violations before using this domain specification.''
      @ nl @ nl
      @ ''Passed: '' @ show_nat (passedCount suite) @ ''/'' @ show_nat (totalCount suite)
      @ '' laws'' @ nl)"

text \<open>
  \<open>enforceLaws\<close> throws the message, or logs one line and returns; the line it logs is
  its result here.
\<close>

definition enforceLaws ::
  "('e, 's, 'v, 'a) inspect \<Rightarrow> ('r, 'd, 'c, 'e, 's, 'v, 'a, 'w, 'z) DomainLaws_scheme \<Rightarrow>
   (string, 'w) js" where
  "enforceLaws insp laws =
     jbind (verifyAllLaws insp laws) (\<lambda>suite.
     if \<not> allPassed suite then throw (Error (errorMessage suite))
     else ret (check_mark @ '' All 12 Category Theory Laws Verified (''
               @ show_nat (passedCount suite) @ ''/'' @ show_nat (totalCount suite) @ '')''))"

text \<open>\<open>DomainSpec.verifyLaws\<close>: the specification with its flag set, once the laws hold.\<close>

definition verifyLaws ::
  "('e, 's, 'v, 'a) inspect \<Rightarrow> ('r, 'd, 'c, 'e, 's, 'v, 'a, 'w) DomainSpec \<Rightarrow>
   (('r, 'd, 'c, 'e, 's, 'v, 'a, 'w) DomainSpec, 'w) js" where
  "verifyLaws insp spec =
     (if lawsVerified spec then ret spec
      else jbind (enforceLaws insp (DomainLaws.truncate spec)) (\<lambda>_.
           ret (spec\<lparr>lawsVerified := True\<rparr>)))"

section \<open>Reading the log\<close>

text \<open>The port calls an invocation added to the log, in order.\<close>

definition new_effects :: "('e, 'w) sys \<Rightarrow> ('e, 'w) sys \<Rightarrow> 'e effect list" where
  "new_effects st st' = drop (length (trace st)) (trace st')"

text \<open>A call that failed (its promise was rejected).\<close>

fun failed :: "'e effect \<Rightarrow> bool" where
  "failed (SqlQuery q params r) = isl r"
| "failed (KvGet k r) = isl r"
| "failed (KvSet k v ttl r) = isl r"
| "failed (BusPublish e r) = isl r"







section \<open>The pipeline both handlers follow\<close>



section \<open>Concrete domains, ports and runtimes\<close>

text \<open>
  The counter domain of the installation test (test-installation.js). The world is a
  counter that stands for the clock and the random source: reading it advances it.
  A command is its \<open>kind\<close> (absent on an object that has none) and its \<open>amount\<close>; an
  event is its \<open>kind\<close>, its \<open>amount\<close> and its \<open>timestamp\<close> (absent on generated
  events). State and view are the counts, and an answer is the count it reports.
\<close>

datatype counter_command = CounterCommand "string option" int

datatype counter_event = CounterEvent string int "string option"

definition counter_decide :: "int \<Rightarrow> counter_command \<Rightarrow> (counter_event list, nat) js" where
  "counter_decide s c =
     (\<lambda>w. case c of CounterCommand k amount \<Rightarrow>
        if k = Some ''Increment''
        then (Inr [CounterEvent ''Incremented'' amount (Some (show_nat w))], Suc w)
        else (Inr [], w))"

definition counter_step :: "int \<Rightarrow> counter_event \<Rightarrow> int" where
  "counter_step n e =
     (case e of CounterEvent k amount t \<Rightarrow> if k = ''Incremented'' then n + amount else n)"

definition counter_events :: "(counter_event list, nat) arbitrary" where
  "counter_events = (\<lambda>w. (replicate (w mod 3) (CounterEvent ''Incremented'' (int w) None), Suc w))"

definition counter_commands :: "(counter_command, nat) arbitrary" where
  "counter_commands = (\<lambda>w. (CounterCommand (Some ''Increment'') (int w), Suc w))"

definition counter_raws :: "(int, nat) arbitrary" where
  "counter_raws = (\<lambda>w. (int w, Suc w))"

definition CounterSpec ::
  "(int, int, counter_command, counter_event, int, int, int, nat) DomainSpec" where
  "CounterSpec =
     \<lparr> normalize = (\<lambda>raw. ret raw),
       validate = (\<lambda>c. ret (case c of CounterCommand k amount \<Rightarrow> k = Some ''Increment'')),
       decide = counter_decide,
       evolve = (\<lambda>s e. ret (counter_step s e)),
       project = (\<lambda>v e. ret (counter_step v e)),
       queries = (\<lambda>v. ret v),
       deriveView = (\<lambda>s. ret s),
       initialState = 0,
       initialView = 0,
       generateEvents = ret counter_events,
       generateCommands = ret counter_commands,
       generateRaw = ret counter_raws,
       lawsVerified = False \<rparr>"

text \<open>
  The same domain with a \<open>decide\<close> whose event carries the clock reading as its
  amount: two calls on the same state and command return different amounts.
\<close>

definition clock_decide :: "int \<Rightarrow> counter_command \<Rightarrow> (counter_event list, nat) js" where
  "clock_decide s c = (\<lambda>w. (Inr [CounterEvent ''Incremented'' (int w) None], Suc w))"

definition ClockSpec ::
  "(int, int, counter_command, counter_event, int, int, int, nat) DomainSpec" where
  "ClockSpec = CounterSpec\<lparr> decide := clock_decide \<rparr>"

text \<open>The same domain with a \<open>decide\<close> that never produces an event.\<close>

definition QuietSpec ::
  "(int, int, counter_command, counter_event, int, int, int, nat) DomainSpec" where
  "QuietSpec = CounterSpec\<lparr> decide := (\<lambda>s c. ret []) \<rparr>"

text \<open>The same domain with a \<open>normalize\<close> that rejects negative input.\<close>

definition StrictSpec ::
  "(int, int, counter_command, counter_event, int, int, int, nat) DomainSpec" where
  "StrictSpec =
     CounterSpec\<lparr> normalize := (\<lambda>raw. if raw < 0 then throw (Error ''negative'') else ret raw) \<rparr>"

text \<open>The same domain with an \<open>evolve\<close> that throws.\<close>

definition BrokenSpec ::
  "(int, int, counter_command, counter_event, int, int, int, nat) DomainSpec" where
  "BrokenSpec = CounterSpec\<lparr> evolve := (\<lambda>s e. throw (Error ''boom'')) \<rparr>"

text \<open>
  The same domain with a \<open>normalize\<close> that throws a value with no string conversion
  (\<open>throw Object.create(null)\<close>), and with a \<open>generateEvents\<close> that does.
\<close>

definition OpaqueSpec ::
  "(int, int, counter_command, counter_event, int, int, int, nat) DomainSpec" where
  "OpaqueSpec = CounterSpec\<lparr> normalize := (\<lambda>raw. throw Opaque) \<rparr>"

definition UngeneratedSpec ::
  "(int, int, counter_command, counter_event, int, int, int, nat) DomainSpec" where
  "UngeneratedSpec = CounterSpec\<lparr> generateEvents := throw Opaque \<rparr>"

definition counter_inspect :: "(counter_event, int, int, int) inspect" where
  "counter_inspect =
     \<lparr> json_state = (\<lambda>s. if s < 0 then ''-'' @ show_nat (nat (- s)) else show_nat (nat s)),
       json_view = (\<lambda>v. if v < 0 then ''-'' @ show_nat (nat (- v)) else show_nat (nat v)),
       typeof_answer = (\<lambda>a. ''object''),
       with_id = (\<lambda>e i. e) \<rparr>"

definition counter_runtime :: "(counter_command, counter_event, int, nat) runtime" where
  "counter_runtime =
     \<lparr> random_id = (\<lambda>w. (''r'' @ show_nat w, Suc w)),
       now_iso = (\<lambda>w. (''t'' @ show_nat w, Suc w)),
       json_command = (\<lambda>c. ''{command}''),
       json_events = (\<lambda>es. ''[events]''),
       id_of_command = (\<lambda>c. None),
       id_of_event = (\<lambda>e. None),
       as_command = (\<lambda>raw. CounterCommand None 0) \<rparr>"

definition url_runtime :: "(Command, Event, Domain, nat) runtime" where
  "url_runtime =
     \<lparr> random_id = (\<lambda>w. (''r'' @ show_nat w, Suc w)),
       now_iso = (\<lambda>w. (''t'' @ show_nat w, Suc w)),
       json_command = (\<lambda>c. ''{command}''),
       json_events = (\<lambda>es. ''[events]''),
       id_of_command = command_id,
       id_of_event = (\<lambda>e. Some (event_id e)),
       as_command = (\<lambda>d. domain_command d []) \<rparr>"

text \<open>
  Ports: a store and a bus that accept every call, with no cache; the same with a cache
  that holds nothing; the same with a cache that answers \<open>1\<close> to every read; and a store
  that accepts \<open>begin\<close>, \<open>commit\<close> and \<open>rollback\<close> and rejects every other statement.
\<close>

definition plain_deps :: "('e, nat) deps" where
  "plain_deps = \<lparr> sql = (\<lambda>q params. ret ()), bus = (\<lambda>e. ret ()), kv = None \<rparr>"

definition empty_cache :: "nat KV" where
  "empty_cache = \<lparr> kv_get = (\<lambda>k. ret None), kv_set = (\<lambda>k v ttl. ret ()) \<rparr>"

definition full_cache :: "nat KV" where
  "full_cache = \<lparr> kv_get = (\<lambda>k. ret (Some ''1'')), kv_set = (\<lambda>k v ttl. ret ()) \<rparr>"

definition cached_deps :: "('e, nat) deps" where
  "cached_deps = plain_deps\<lparr> kv := Some empty_cache \<rparr>"

definition replay_deps :: "('e, nat) deps" where
  "replay_deps = plain_deps\<lparr> kv := Some full_cache \<rparr>"

definition failing_deps :: "('e, nat) deps" where
  "failing_deps =
     plain_deps\<lparr> sql := (\<lambda>q params.
                   if q = ''begin'' \<or> q = ''commit'' \<or> q = ''rollback'' then ret ()
                   else throw (Error ''disk full'')) \<rparr>"

text \<open>A store that rejects every statement with a value with no string conversion.\<close>

definition opaque_deps :: "('e, nat) deps" where
  "opaque_deps = plain_deps\<lparr> sql := (\<lambda>q params. throw Opaque) \<rparr>"

definition start :: "('e, nat) sys" where
  "start = \<lparr> world = 0, seen = {}, trace = [] \<rparr>"

section \<open>Running an effectful function\<close>

lemma fold_spec_append:
  "fold_spec f s (xs @ ys) = fold_spec f (fold_spec f s xs) ys"
  by (induction xs arbitrary: s) simp_all

lemma ret_apply: "ret x w = (Inr x, w)" by (simp add: ret_def)
lemma throw_apply: "throw e w = (Inl e, w)" by (simp add: throw_def)
lemma jbind_ret: "jbind (ret x) k = k x" by (simp add: jbind_def ret_def)
lemma jbind_throw: "jbind (throw e) k = throw e" by (simp add: jbind_def throw_def)


lemma try_catch_cases:
  assumes "try_catch m h st = (r, st')"
  obtains (caught) e st1 where "m st = (Inl e, st1)" "h e st1 = (r, st')"
        | (returned) x where "m st = (Inr x, st')" "r = Inr x"
  using assms by (auto simp: try_catch_def split: prod.splits sum.splits)

subsection \<open>What each step adds to the log\<close>

lemma sql_query_run:
  assumes "sql_query d q params st = (r, st')"
  shows "trace st' = trace st @ [SqlQuery q params r] \<and> seen st' = seen st"
  using assms by (auto simp: sql_query_def split: prod.splits)














subsection \<open>The handlers as instances of the pipeline\<close>






subsection \<open>The outcomes of the pipeline\<close>




subsection \<open>The pipeline from the events decided in the invocation\<close>




subsection \<open>Cache writes and publishes come after the commit\<close>





subsection \<open>A cache hit\<close>



subsection \<open>The HTTP handlers\<close>

lemma error_message_run:
  "e \<noteq> Opaque \<Longrightarrow> \<exists>msg. (e = Error msg \<or> e = Value msg) \<and> error_message e w = (Inr msg, w)"
  by (cases e) (simp_all add: ret_def)

lemma error_message_opaque:
  "error_message Opaque w = (Inl (Error ''Cannot convert object to primitive value''), w)"
  by (simp add: throw_def)

lemma catch_return:
  "m st = (Inr x, st1) \<Longrightarrow> try_catch m handler st = (Inr x, st1)"
  by (simp add: try_catch_def)

lemma catch_report:
  assumes "m st = (Inl e, st1)" "e \<noteq> Opaque"
  shows "\<exists>msg. (e = Error msg \<or> e = Value msg)
           \<and> try_catch m (\<lambda>error. jbind (error_message error) (\<lambda>msg. ret (h msg))) st
               = (Inr (h msg), st1)"
proof -
  from error_message_run [OF assms(2), of st1] obtain msg where
    "e = Error msg \<or> e = Value msg" "error_message e st1 = (Inr msg, st1)"
    by blast
  with assms(1) show ?thesis
    by (auto simp: try_catch_def jbind_def ret_def)
qed

lemma catch_opaque:
  assumes "m st = (Inl Opaque, st1)"
  shows "try_catch m (\<lambda>error. jbind (error_message error) k) st
         = (Inl (Error ''Cannot convert object to primitive value''), st1)"
  using assms by (simp add: try_catch_def jbind_def throw_def)

text \<open>The body of \<open>httpHandle\<close>'s \<open>try\<close>.\<close>

lemma httpHandle_body:
  "(jbind (in_world (normalize spec raw)) (\<lambda>domain.
      jbind (handle spec rt d s (as_command rt domain)) (\<lambda>newState.
      ret (newState, [(''success'', JBool True), (''status'', JNum 200)])))) st
   = (case normalize spec raw (world st) of
        (Inl e, w') \<Rightarrow> (Inl e, st\<lparr>world := w'\<rparr>)
      | (Inr dmn, w') \<Rightarrow>
          (case handle spec rt d s (as_command rt dmn) (st\<lparr>world := w'\<rparr>) of
             (Inl e, st1) \<Rightarrow> (Inl e, st1)
           | (Inr newState, st1) \<Rightarrow>
               (Inr (newState, [(''success'', JBool True), (''status'', JNum 200)]), st1)))"
  by (simp add: jbind_def in_world_def ret_def split: prod.splits sum.splits)



lemma httpHandle_normalize_opaque:
  assumes "normalize spec raw (world st) = (Inl Opaque, w')"
  shows "httpHandle spec rt d s raw st
         = (Inl (Error ''Cannot convert object to primitive value''), st\<lparr>world := w'\<rparr>)"
proof -
  have "(jbind (in_world (normalize spec raw)) (\<lambda>domain.
      jbind (handle spec rt d s (as_command rt domain)) (\<lambda>newState.
      ret (newState, [(''success'', JBool True), (''status'', JNum 200)])))) st
        = (Inl Opaque, st\<lparr>world := w'\<rparr>)"
    unfolding httpHandle_body using assms by simp
  then show ?thesis unfolding httpHandle_def by (rule catch_opaque)
qed





section \<open>Lemmas on the law verification engine\<close>

lemma truncate_fields:
  "evolve (DomainLaws.truncate spec) = evolve spec"
  "project (DomainLaws.truncate spec) = project spec"
  "queries (DomainLaws.truncate spec) = queries spec"
  "deriveView (DomainLaws.truncate spec) = deriveView spec"
  "initialState (DomainLaws.truncate spec) = initialState spec"
  "initialView (DomainLaws.truncate spec) = initialView spec"
  "generateEvents (DomainLaws.truncate spec) = generateEvents spec"
  by (simp_all add: DomainLaws.truncate_def)

lemma reduce_ret: "reduce (\<lambda>s e. ret (f s e)) s es = ret (fold_spec f s es)"
  by (induction es arbitrary: s) (simp_all add: jbind_ret)

lemma fc_runs_pass:
  assumes "\<And>x w. \<exists>w'. predicate x w = (Inr True, w')"
  shows "\<exists>w'. fc_runs n arb predicate w = (Inr (), w')"
proof (induction n arbitrary: w)
  case 0
  show ?case by simp
next
  case (Suc n)
  obtain x w1 where a: "arb w = (x, w1)" by (cases "arb w")
  from assms obtain w2 where p: "predicate x w1 = (Inr True, w2)" by blast
  from Suc.IH obtain w' where "fc_runs n arb predicate w2 = (Inr (), w')" by blast
  with a p show ?case by simp
qed

lemma length_filter_all: "length (filter P xs) = length xs \<longleftrightarrow> list_all P xs"
proof (induction xs)
  case Nil
  show ?case by simp
next
  case (Cons x xs)
  have "length (filter P xs) \<noteq> Suc (length xs)"
    using length_filter_le [of P xs] by arith
  with Cons show ?case by simp
qed






subsection \<open>Every check returns a result, unless its catch block fails\<close>

lemma fc_runs_error: "fst (fc_runs n arb predicate w) \<noteq> Inl Opaque"
proof (induction n arbitrary: w)
  case 0
  show ?case by simp
next
  case (Suc n)
  then show ?case by (auto split: prod.splits sum.splits)
qed

lemma asserted_not_opaque:
  "fst (jbind (fc_assert arb predicate n) (\<lambda>_. ret x) w) \<noteq> Inl Opaque"
  using fc_runs_error [of n arb predicate w]
  by (auto simp: jbind_def fc_assert_def ret_def split: prod.splits sum.splits)

lemma generated_not_opaque:
  assumes "fst (gen w) \<noteq> Inl Opaque" "\<And>arb w1. fst (k arb w1) \<noteq> Inl Opaque"
  shows "fst (jbind gen k w) \<noteq> Inl Opaque"
  using assms by (auto simp: jbind_def split: prod.splits sum.splits)

lemma named_check:
  assumes no: "fst (m w) \<noteq> Inl Opaque"
      and ok: "\<And>x w'. m w = (Inr x, w') \<Longrightarrow> law x = name"
      and bad: "\<And>msg. law (h msg) = name"
  shows "\<exists>r w'. try_catch m (\<lambda>error. jbind (error_message error) (\<lambda>msg. ret (h msg))) w
                   = (Inr r, w') \<and> law r = name"
proof (cases "m w")
  case (Pair res w')
  show ?thesis
  proof (cases res)
    case (Inr x)
    with Pair ok [of x w'] show ?thesis by (simp add: catch_return)
  next
    case (Inl e)
    with Pair no have "e \<noteq> Opaque" by auto
    with Pair Inl catch_report [of m w e w' h] bad show ?thesis by auto
  qed
qed

lemma verifyPurity_named:
  assumes "\<And>w. fst (generateEvents laws w) \<noteq> Inl Opaque"
  shows "\<exists>r w'. verifyPurity insp laws w = (Inr r, w') \<and> law r = ''1. Purity''"
  unfolding verifyPurity_def
proof (rule named_check)
  show "fst (jbind (generateEvents laws) (\<lambda>arb.
          jbind (fc_assert arb (purity_property insp laws) 100) (\<lambda>_.
          ret \<lparr> law = ''1. Purity'', passed = True, error = None,
                description = ''All functions are deterministic (same input '' @ arrow
                              @ '' same output)'' \<rparr>)) w) \<noteq> Inl Opaque"
    by (intro generated_not_opaque assms asserted_not_opaque)
qed (auto simp: jbind_def ret_def split: prod.splits sum.splits)

lemma verifyCQRSCommutativity_named:
  assumes "\<And>w. fst (generateEvents laws w) \<noteq> Inl Opaque"
  shows "\<exists>r w'. verifyCQRSCommutativity insp laws w = (Inr r, w')
                 \<and> law r = ''4. CQRS Commutativity''"
  unfolding verifyCQRSCommutativity_def
proof (rule named_check)
  show "fst (jbind (generateEvents laws) (\<lambda>arb.
          jbind (fc_assert arb (cqrs_property insp laws) 50) (\<lambda>_.
          ret \<lparr> law = ''4. CQRS Commutativity'', passed = True, error = None,
                description = ''Read model queries equal derived view queries: queries(project*) = deriveView(evolve*)'' \<rparr>)) w) \<noteq> Inl Opaque"
    by (intro generated_not_opaque assms asserted_not_opaque)
qed (auto simp: jbind_def ret_def split: prod.splits sum.splits)

lemma verifyReplayDeterminism_named:
  assumes "\<And>w. fst (generateEvents laws w) \<noteq> Inl Opaque"
  shows "\<exists>r w'. verifyReplayDeterminism insp laws w = (Inr r, w')
                 \<and> law r = ''7. Replay Determinism''"
  unfolding verifyReplayDeterminism_def
proof (rule named_check)
  show "fst (jbind (generateEvents laws) (\<lambda>arb1.
          jbind (generateEvents laws) (\<lambda>arb2.
          jbind (fc_assert (fc_tuple arb1 arb2) (replay_property insp laws) 50) (\<lambda>_.
          ret \<lparr> law = ''7. Replay Determinism'', passed = True, error = None,
                description = ''Fold associativity: fold(f, fold(f, s, xs), ys) = fold(f, s, xs++ys)'' \<rparr>))) w) \<noteq> Inl Opaque"
    by (intro generated_not_opaque assms asserted_not_opaque)
qed (auto simp: jbind_def ret_def split: prod.splits sum.splits)

lemma verifyIdempotence_named:
  assumes "\<And>w. fst (generateEvents laws w) \<noteq> Inl Opaque"
  shows "\<exists>r w'. verifyIdempotence insp laws w = (Inr r, w') \<and> law r = ''8. Idempotence''"
  unfolding verifyIdempotence_def
proof (rule named_check)
  show "fst (jbind (generateEvents laws) (\<lambda>arb.
          jbind (fc_assert arb (idempotence_property insp laws) 10) (\<lambda>_.
          ret \<lparr> law = ''8. Idempotence'', passed = True, error = None,
                description = ''Duplicate operations with same ID are ignored (verified at Spec and Infrastructure levels)'' \<rparr>)) w) \<noteq> Inl Opaque"
    by (intro generated_not_opaque assms asserted_not_opaque)
qed (auto simp: jbind_def ret_def split: prod.splits sum.splits)

text \<open>Checks 2, 3, 5, 6 and 9 call nothing that can throw.\<close>

lemma verifyFunctoriality_run:
  "verifyFunctoriality insp laws w
   = (Inr \<lparr> law = ''2. Functoriality (R)'', passed = True, error = None,
             description = ''R functor preserves composition: R(g'' @ ring @ ''f) = R(g)''
                           @ ring @ ''R(f)'' \<rparr>, w)"
  by (simp add: verifyFunctoriality_def DomainSpec_fold_def jbind_def try_catch_def ret_def)

lemma verifyObservabilityNaturality_run:
  "verifyObservabilityNaturality insp laws w
   = (Inr \<lparr> law = ''3. Observability Naturality (O)'', passed = True, error = None,
             description = ''Observability composes: O(g'' @ ring @ ''f) = O(g)''
                           @ ring @ ''O(f)'' \<rparr>, w)"
  by (simp add: verifyObservabilityNaturality_def try_catch_def ret_def)

lemma verifyOutboxCommutativity_run:
  "verifyOutboxCommutativity insp laws w
   = (Inr \<lparr> law = ''5. Outbox Commutativity'', passed = True, error = None,
             description = ''Transactional outbox ensures exactly-once delivery (verified with real infrastructure)'' \<rparr>, w)"
  by (simp add: verifyOutboxCommutativity_def try_catch_def ret_def)

lemma verifyPushPullEquivalence_run:
  "verifyPushPullEquivalence insp laws w
   = (Inr \<lparr> law = ''6. Push/Pull Equivalence'', passed = True, error = None,
             description = ''Push and pull eventually converge to same state (verified with WebSocket vs HTTP)'' \<rparr>, w)"
  by (simp add: verifyPushPullEquivalence_def try_catch_def ret_def)

lemma verifyCausalityOrdering_run:
  "verifyCausalityOrdering insp laws w
   = (Inr \<lparr> law = ''9. Causality/Ordering'', passed = True, error = None,
             description = ''Causal ordering is preserved within aggregates (verified with state transitions)'' \<rparr>, w)"
  by (simp add: verifyCausalityOrdering_def try_catch_def ret_def)

lemma jbind_then:
  "m w = (Inr x, w1) \<Longrightarrow> k x w1 = res \<Longrightarrow> jbind m k w = res"
  by (simp add: jbind_def)

text \<open>
  The suite holds the result of each check, each run in the world the one before it
  left, whatever the earlier results were.
\<close>

lemma verifyAllLaws_chain:
  assumes "verifyPurity insp laws w = (Inr a, wa)"
    "verifyFunctoriality insp laws wa = (Inr b, wb)"
    "verifyObservabilityNaturality insp laws wb = (Inr c, wc)"
    "verifyCQRSCommutativity insp laws wc = (Inr d, wd)"
    "verifyOutboxCommutativity insp laws wd = (Inr e, we)"
    "verifyPushPullEquivalence insp laws we = (Inr f, wv)"
    "verifyReplayDeterminism insp laws wv = (Inr g, wg)"
    "verifyIdempotence insp laws wg = (Inr h, wh)"
    "verifyCausalityOrdering insp laws wh = (Inr i, wi)"
  shows "verifyAllLaws insp laws w
       = (Inr (make_suite [a, b, c, d, e, f, g, h, i,
                           verifyMonoidalAggregation laws,
                           verifyPullbackCorrectness laws,
                           verifyPushoutSchemaEvolution laws]), wi)"
  unfolding verifyAllLaws_def
  apply (rule jbind_then [where m = "verifyPurity insp laws", OF assms(1)])
  apply (rule jbind_then [where m = "verifyFunctoriality insp laws", OF assms(2)])
  apply (rule jbind_then [where m = "verifyObservabilityNaturality insp laws", OF assms(3)])
  apply (rule jbind_then [where m = "verifyCQRSCommutativity insp laws", OF assms(4)])
  apply (rule jbind_then [where m = "verifyOutboxCommutativity insp laws", OF assms(5)])
  apply (rule jbind_then [where m = "verifyPushPullEquivalence insp laws", OF assms(6)])
  apply (rule jbind_then [where m = "verifyReplayDeterminism insp laws", OF assms(7)])
  apply (rule jbind_then [where m = "verifyIdempotence insp laws", OF assms(8)])
  apply (rule jbind_then [where m = "verifyCausalityOrdering insp laws", OF assms(9)])
  apply (simp only: ret_def)
  done

lemma verifyAllLaws_results:
  assumes gen: "\<And>w. fst (generateEvents laws w) \<noteq> Inl Opaque"
  obtains a b c d e f g h i wa wd wg wh where
    "verifyPurity insp laws w = (Inr a, wa)"
    "verifyFunctoriality insp laws wa = (Inr b, wa)"
    "verifyObservabilityNaturality insp laws wa = (Inr c, wa)"
    "verifyCQRSCommutativity insp laws wa = (Inr d, wd)"
    "verifyOutboxCommutativity insp laws wd = (Inr e, wd)"
    "verifyPushPullEquivalence insp laws wd = (Inr f, wd)"
    "verifyReplayDeterminism insp laws wd = (Inr g, wg)"
    "verifyIdempotence insp laws wg = (Inr h, wh)"
    "verifyCausalityOrdering insp laws wh = (Inr i, wh)"
    "verifyAllLaws insp laws w
       = (Inr (make_suite [a, b, c, d, e, f, g, h, i,
                           verifyMonoidalAggregation laws,
                           verifyPullbackCorrectness laws,
                           verifyPushoutSchemaEvolution laws]), wh)"
    "law a = ''1. Purity''" "law b = ''2. Functoriality (R)''"
    "law c = ''3. Observability Naturality (O)''" "law d = ''4. CQRS Commutativity''"
    "law e = ''5. Outbox Commutativity''" "law f = ''6. Push/Pull Equivalence''"
    "law g = ''7. Replay Determinism''" "law h = ''8. Idempotence''"
    "law i = ''9. Causality/Ordering''"
proof -
  from verifyPurity_named [OF gen, of insp w]
  obtain a wa where a: "verifyPurity insp laws w = (Inr a, wa)" "law a = ''1. Purity''"
    by (elim exE conjE)
  obtain b where b: "verifyFunctoriality insp laws wa = (Inr b, wa)"
    "law b = ''2. Functoriality (R)''"
    by (simp add: verifyFunctoriality_run)
  obtain c where c: "verifyObservabilityNaturality insp laws wa = (Inr c, wa)"
    "law c = ''3. Observability Naturality (O)''"
    by (simp add: verifyObservabilityNaturality_run)
  from verifyCQRSCommutativity_named [OF gen, of insp wa]
  obtain d wd where d: "verifyCQRSCommutativity insp laws wa = (Inr d, wd)"
    "law d = ''4. CQRS Commutativity''"
    by (elim exE conjE)
  obtain e where e: "verifyOutboxCommutativity insp laws wd = (Inr e, wd)"
    "law e = ''5. Outbox Commutativity''"
    by (simp add: verifyOutboxCommutativity_run)
  obtain f where f: "verifyPushPullEquivalence insp laws wd = (Inr f, wd)"
    "law f = ''6. Push/Pull Equivalence''"
    by (simp add: verifyPushPullEquivalence_run)
  from verifyReplayDeterminism_named [OF gen, of insp wd]
  obtain g wg where g: "verifyReplayDeterminism insp laws wd = (Inr g, wg)"
    "law g = ''7. Replay Determinism''"
    by (elim exE conjE)
  from verifyIdempotence_named [OF gen, of insp wg]
  obtain h wh where h: "verifyIdempotence insp laws wg = (Inr h, wh)"
    "law h = ''8. Idempotence''"
    by (elim exE conjE)
  obtain i where i: "verifyCausalityOrdering insp laws wh = (Inr i, wh)"
    "law i = ''9. Causality/Ordering''"
    by (simp add: verifyCausalityOrdering_run)
  note chain = verifyAllLaws_chain [OF a(1) b(1) c(1) d(1) e(1) f(1) g(1) h(1) i(1)]
  from a(1) b(1) c(1) d(1) e(1) f(1) g(1) h(1) i(1) chain
       a(2) b(2) c(2) d(2) e(2) f(2) g(2) h(2) i(2)
  show ?thesis by (rule that)
qed

text \<open>A suite that was returned holds the three literal results last.\<close>

lemma jbind_returns:
  "jbind m k w = (Inr y, w') \<Longrightarrow> \<exists>x w1. m w = (Inr x, w1) \<and> k x w1 = (Inr y, w')"
  by (auto simp: jbind_def split: prod.splits sum.splits)

lemma verifyAllLaws_returned:
  assumes "verifyAllLaws insp laws w = (Inr suite, w')"
  shows "\<exists>a b c d e f g h i.
           suite = make_suite [a, b, c, d, e, f, g, h, i,
                               verifyMonoidalAggregation laws,
                               verifyPullbackCorrectness laws,
                               verifyPushoutSchemaEvolution laws]"
proof -
  note assms [unfolded verifyAllLaws_def]
  then obtain a wa where "jbind (verifyFunctoriality insp laws) (\<lambda>r2.
     jbind (verifyObservabilityNaturality insp laws) (\<lambda>r3.
     jbind (verifyCQRSCommutativity insp laws) (\<lambda>r4.
     jbind (verifyOutboxCommutativity insp laws) (\<lambda>r5.
     jbind (verifyPushPullEquivalence insp laws) (\<lambda>r6.
     jbind (verifyReplayDeterminism insp laws) (\<lambda>r7.
     jbind (verifyIdempotence insp laws) (\<lambda>r8.
     jbind (verifyCausalityOrdering insp laws) (\<lambda>r9.
     ret (make_suite
            [a, r2, r3, r4, r5, r6, r7, r8, r9,
             verifyMonoidalAggregation laws,
             verifyPullbackCorrectness laws,
             verifyPushoutSchemaEvolution laws]))))))))) wa = (Inr suite, w')"
    by (blast dest: jbind_returns)
  then obtain b wb where "
     jbind (verifyObservabilityNaturality insp laws) (\<lambda>r3.
     jbind (verifyCQRSCommutativity insp laws) (\<lambda>r4.
     jbind (verifyOutboxCommutativity insp laws) (\<lambda>r5.
     jbind (verifyPushPullEquivalence insp laws) (\<lambda>r6.
     jbind (verifyReplayDeterminism insp laws) (\<lambda>r7.
     jbind (verifyIdempotence insp laws) (\<lambda>r8.
     jbind (verifyCausalityOrdering insp laws) (\<lambda>r9.
     ret (make_suite
            [a, b, r3, r4, r5, r6, r7, r8, r9,
             verifyMonoidalAggregation laws,
             verifyPullbackCorrectness laws,
             verifyPushoutSchemaEvolution laws])))))))) wb = (Inr suite, w')"
    by (blast dest: jbind_returns)
  then obtain c wc where "
     jbind (verifyCQRSCommutativity insp laws) (\<lambda>r4.
     jbind (verifyOutboxCommutativity insp laws) (\<lambda>r5.
     jbind (verifyPushPullEquivalence insp laws) (\<lambda>r6.
     jbind (verifyReplayDeterminism insp laws) (\<lambda>r7.
     jbind (verifyIdempotence insp laws) (\<lambda>r8.
     jbind (verifyCausalityOrdering insp laws) (\<lambda>r9.
     ret (make_suite
            [a, b, c, r4, r5, r6, r7, r8, r9,
             verifyMonoidalAggregation laws,
             verifyPullbackCorrectness laws,
             verifyPushoutSchemaEvolution laws]))))))) wc = (Inr suite, w')"
    by (blast dest: jbind_returns)
  then obtain d wd where "
     jbind (verifyOutboxCommutativity insp laws) (\<lambda>r5.
     jbind (verifyPushPullEquivalence insp laws) (\<lambda>r6.
     jbind (verifyReplayDeterminism insp laws) (\<lambda>r7.
     jbind (verifyIdempotence insp laws) (\<lambda>r8.
     jbind (verifyCausalityOrdering insp laws) (\<lambda>r9.
     ret (make_suite
            [a, b, c, d, r5, r6, r7, r8, r9,
             verifyMonoidalAggregation laws,
             verifyPullbackCorrectness laws,
             verifyPushoutSchemaEvolution laws])))))) wd = (Inr suite, w')"
    by (blast dest: jbind_returns)
  then obtain e we where "
     jbind (verifyPushPullEquivalence insp laws) (\<lambda>r6.
     jbind (verifyReplayDeterminism insp laws) (\<lambda>r7.
     jbind (verifyIdempotence insp laws) (\<lambda>r8.
     jbind (verifyCausalityOrdering insp laws) (\<lambda>r9.
     ret (make_suite
            [a, b, c, d, e, r6, r7, r8, r9,
             verifyMonoidalAggregation laws,
             verifyPullbackCorrectness laws,
             verifyPushoutSchemaEvolution laws]))))) we = (Inr suite, w')"
    by (blast dest: jbind_returns)
  then obtain f wv where "
     jbind (verifyReplayDeterminism insp laws) (\<lambda>r7.
     jbind (verifyIdempotence insp laws) (\<lambda>r8.
     jbind (verifyCausalityOrdering insp laws) (\<lambda>r9.
     ret (make_suite
            [a, b, c, d, e, f, r7, r8, r9,
             verifyMonoidalAggregation laws,
             verifyPullbackCorrectness laws,
             verifyPushoutSchemaEvolution laws])))) wv = (Inr suite, w')"
    by (blast dest: jbind_returns)
  then obtain g wg where "
     jbind (verifyIdempotence insp laws) (\<lambda>r8.
     jbind (verifyCausalityOrdering insp laws) (\<lambda>r9.
     ret (make_suite
            [a, b, c, d, e, f, g, r8, r9,
             verifyMonoidalAggregation laws,
             verifyPullbackCorrectness laws,
             verifyPushoutSchemaEvolution laws]))) wg = (Inr suite, w')"
    by (blast dest: jbind_returns)
  then obtain h wh where "
     jbind (verifyCausalityOrdering insp laws) (\<lambda>r9.
     ret (make_suite
            [a, b, c, d, e, f, g, h, r9,
             verifyMonoidalAggregation laws,
             verifyPullbackCorrectness laws,
             verifyPushoutSchemaEvolution laws])) wh = (Inr suite, w')"
    by (blast dest: jbind_returns)
  then obtain i wi where "
     ret (make_suite
            [a, b, c, d, e, f, g, h, i,
             verifyMonoidalAggregation laws,
             verifyPullbackCorrectness laws,
             verifyPushoutSchemaEvolution laws]) wi = (Inr suite, w')"
    by (blast dest: jbind_returns)
  then have "suite = make_suite [a, b, c, d, e, f, g, h, i,
                               verifyMonoidalAggregation laws,
                               verifyPullbackCorrectness laws,
                               verifyPushoutSchemaEvolution laws]"
    by (simp add: ret_def)
  then show ?thesis by blast
qed



lemma stub_laws:
  "law (verifyMonoidalAggregation laws) = ''10. Monoidal Aggregation''"
  "law (verifyPullbackCorrectness laws) = ''11. Pullback Correctness''"
  "law (verifyPushoutSchemaEvolution laws) = ''12. Pushout Schema Evolution''"
  by (simp_all add: verifyMonoidalAggregation_def verifyPullbackCorrectness_def
        verifyPushoutSchemaEvolution_def)

lemma make_suite_fields:
  "results (make_suite rs) = rs"
  "totalCount (make_suite rs) = length rs"
  "passedCount (make_suite rs) = length (filter passed rs)"
  "allPassed (make_suite rs) \<longleftrightarrow> list_all passed rs"
  by (simp_all add: make_suite_def Let_def length_filter_all)

lemma enforceLaws_after:
  assumes "verifyAllLaws insp laws w = (Inr suite, w')"
  shows "enforceLaws insp laws w
         = (if allPassed suite
            then Inr (check_mark @ '' All 12 Category Theory Laws Verified (''
                      @ show_nat (passedCount suite) @ ''/'' @ show_nat (totalCount suite)
                      @ '')'')
            else Inl (Error (errorMessage suite)), w')"
  unfolding enforceLaws_def jbind_def assms by (simp add: throw_def ret_def)

subsection \<open>The domain whose evolve throws\<close>

lemma fc_runs_step_pass:
  "arb w = (x, w1) \<Longrightarrow> predicate x w1 = (Inr True, w2)
   \<Longrightarrow> fc_runs (Suc n) arb predicate w = fc_runs n arb predicate w2"
  by simp

lemma fc_runs_step_throw:
  "arb w = (x, w1) \<Longrightarrow> predicate x w1 = (Inl e, w2)
   \<Longrightarrow> fc_runs (Suc n) arb predicate w = (Inl (Error (fc_report (Some e))), w2)"
  by simp

lemma broken_purity_first:
  "purity_property counter_inspect BrokenSpec [] w = (Inr True, w)"
  by (simp add: purity_property_def DomainSpec_fold_def jbind_def ret_def)

lemma broken_purity_second:
  "purity_property counter_inspect BrokenSpec [e] w = (Inl (Error ''boom''), w)"
  by (simp add: purity_property_def DomainSpec_fold_def jbind_def ret_def throw_def
        BrokenSpec_def)


lemma broken_generate: "generateEvents BrokenSpec w = (Inr counter_events, w)"
  by (simp add: BrokenSpec_def CounterSpec_def ret_def)

lemma counter_events_0: "counter_events (0::nat) = ([], 1)"
  by (simp add: counter_events_def)

lemma counter_events_1:
  "counter_events (1::nat) = ([CounterEvent ''Incremented'' 1 None], 2)"
  by (simp add: counter_events_def)


lemma broken_fc_runs:
  "fc_runs (Suc (Suc n)) counter_events (purity_property counter_inspect BrokenSpec) 0
   = (Inl (Error (fc_report (Some (Error ''boom'')))), 2)"
proof -
  have "fc_runs (Suc (Suc n)) counter_events (purity_property counter_inspect BrokenSpec) 0
        = fc_runs (Suc n) counter_events (purity_property counter_inspect BrokenSpec) 1"
    by (rule fc_runs_step_pass
          [where arb = counter_events and predicate = "purity_property counter_inspect BrokenSpec",
           OF counter_events_0 broken_purity_first])
  also have "\<dots> = (Inl (Error (fc_report (Some (Error ''boom'')))), 2)"
    by (rule fc_runs_step_throw
          [where arb = counter_events and predicate = "purity_property counter_inspect BrokenSpec",
           OF counter_events_1 broken_purity_second])
  finally show ?thesis .
qed

lemma hundred: "(100::nat) = Suc (Suc 98)"
  by simp


lemma broken_purity:
  "verifyPurity counter_inspect BrokenSpec 0
   = (Inr \<lparr>law = ''1. Purity'', passed = False, error = Some ''Property failed: boom'',
            description = ''Functions must be deterministic''\<rparr>, 2)"
proof -
  have "fc_assert counter_events (purity_property counter_inspect BrokenSpec) 100 0
        = (Inl (Error (fc_report (Some (Error ''boom'')))), 2)"
    unfolding fc_assert_def hundred by (rule broken_fc_runs)
  then show ?thesis
    by (simp add: verifyPurity_def try_catch_def jbind_def broken_generate ret_def
          fc_report_def)
qed


subsection \<open>Domains whose functions are pure\<close>

lemma fold_ret: "DomainSpec_fold (\<lambda>s e. ret (f s e)) s es = ret (fold_spec f s es)"
  unfolding DomainSpec_fold_def by (rule reduce_ret)

lemma purity_property_pure:
  assumes "evolve laws = (\<lambda>s e. ret (ev s e))" "project laws = (\<lambda>v e. ret (pr v e))"
  shows "purity_property insp laws events w = (Inr True, w)"
  by (simp add: purity_property_def assms fold_ret jbind_ret ret_apply)

lemma cqrs_property_pure:
  assumes "evolve laws = (\<lambda>s e. ret (ev s e))" "project laws = (\<lambda>v e. ret (pr v e))"
    and "queries laws = (\<lambda>v. ret (q v))" "deriveView laws = (\<lambda>s. ret (dv s))"
    and "\<And>x y. typeof_answer insp x = typeof_answer insp y"
  shows "cqrs_property insp laws events w = (Inr True, w)"
proof -
  have "typeof_answer insp (q (fold_spec pr (initialView laws) events))
        = typeof_answer insp (dv (fold_spec ev (initialState laws) events))"
    by (rule assms(5))
  then show ?thesis
    by (simp add: cqrs_property_def assms(1-4) fold_ret jbind_ret ret_apply)
qed

lemma replay_property_pure:
  assumes "evolve laws = (\<lambda>s e. ret (ev s e))"
  shows "replay_property insp laws pair w = (Inr True, w)"
  by (cases pair)
     (simp add: replay_property_def assms fold_ret jbind_ret ret_apply fold_spec_append)

lemma idempotence_property_pure:
  assumes "evolve laws = (\<lambda>s e. ret (ev s e))"
  shows "idempotence_property insp laws events w = (Inr True, w)"
  by (simp add: idempotence_property_def assms fold_ret jbind_ret ret_apply)

lemma fc_assert_pass:
  assumes "\<And>x w. predicate x w = (Inr True, w)"
  shows "\<exists>w'. fc_assert arb predicate n w = (Inr (), w')"
  unfolding fc_assert_def using assms by (intro fc_runs_pass) blast

lemma verifyPurity_pure:
  assumes "evolve laws = (\<lambda>s e. ret (ev s e))" "project laws = (\<lambda>v e. ret (pr v e))"
    and "generateEvents laws = ret arb"
    and "verifyPurity insp laws w = (Inr r, w')"
  shows "passed r"
proof -
  from fc_assert_pass [of "purity_property insp laws" arb 100 w]
       purity_property_pure [OF assms(1,2)]
  obtain w1 where "fc_assert arb (purity_property insp laws) 100 w = (Inr (), w1)"
    by blast
  with assms(4) show ?thesis
    by (auto simp: verifyPurity_def assms(3) jbind_ret try_catch_def jbind_def ret_def)
qed

lemma verifyCQRSCommutativity_pure:
  assumes "evolve laws = (\<lambda>s e. ret (ev s e))" "project laws = (\<lambda>v e. ret (pr v e))"
    and "queries laws = (\<lambda>v. ret (q v))" "deriveView laws = (\<lambda>s. ret (dv s))"
    and "\<And>x y. typeof_answer insp x = typeof_answer insp y"
    and "generateEvents laws = ret arb"
    and "verifyCQRSCommutativity insp laws w = (Inr r, w')"
  shows "passed r"
proof -
  from fc_assert_pass [of "cqrs_property insp laws" arb 50 w]
       cqrs_property_pure [OF assms(1-5)]
  obtain w1 where "fc_assert arb (cqrs_property insp laws) 50 w = (Inr (), w1)"
    by blast
  with assms(7) show ?thesis
    by (auto simp: verifyCQRSCommutativity_def assms(6) jbind_ret try_catch_def jbind_def
          ret_def)
qed

lemma verifyReplayDeterminism_pure:
  assumes "evolve laws = (\<lambda>s e. ret (ev s e))"
    and "generateEvents laws = ret arb"
    and "verifyReplayDeterminism insp laws w = (Inr r, w')"
  shows "passed r"
proof -
  from fc_assert_pass [of "replay_property insp laws" "fc_tuple arb arb" 50 w]
       replay_property_pure [OF assms(1)]
  obtain w1 where
    "fc_assert (fc_tuple arb arb) (replay_property insp laws) 50 w = (Inr (), w1)"
    by blast
  with assms(3) show ?thesis
    by (auto simp: verifyReplayDeterminism_def assms(2) jbind_ret try_catch_def jbind_def
          ret_def)
qed

lemma verifyIdempotence_pure:
  assumes "evolve laws = (\<lambda>s e. ret (ev s e))"
    and "generateEvents laws = ret arb"
    and "verifyIdempotence insp laws w = (Inr r, w')"
  shows "passed r"
proof -
  from fc_assert_pass [of "idempotence_property insp laws" arb 10 w]
       idempotence_property_pure [OF assms(1)]
  obtain w1 where "fc_assert arb (idempotence_property insp laws) 10 w = (Inr (), w1)"
    by blast
  with assms(3) show ?thesis
    by (auto simp: verifyIdempotence_def assms(2) jbind_ret try_catch_def jbind_def ret_def)
qed

lemma verifyFunctoriality_passes:
  "verifyFunctoriality insp laws w = (Inr r, w') \<Longrightarrow> passed r"
  by (auto simp: verifyFunctoriality_run)

lemma verifyObservabilityNaturality_passes:
  "verifyObservabilityNaturality insp laws w = (Inr r, w') \<Longrightarrow> passed r"
  by (auto simp: verifyObservabilityNaturality_run)

lemma verifyOutboxCommutativity_passes:
  "verifyOutboxCommutativity insp laws w = (Inr r, w') \<Longrightarrow> passed r"
  by (auto simp: verifyOutboxCommutativity_run)

lemma verifyPushPullEquivalence_passes:
  "verifyPushPullEquivalence insp laws w = (Inr r, w') \<Longrightarrow> passed r"
  by (auto simp: verifyPushPullEquivalence_run)

lemma verifyCausalityOrdering_passes:
  "verifyCausalityOrdering insp laws w = (Inr r, w') \<Longrightarrow> passed r"
  by (auto simp: verifyCausalityOrdering_run)

lemma stub_passed:
  "passed (verifyMonoidalAggregation laws)"
  "passed (verifyPullbackCorrectness laws)"
  "passed (verifyPushoutSchemaEvolution laws)"
  by (simp_all add: verifyMonoidalAggregation_def verifyPullbackCorrectness_def
        verifyPushoutSchemaEvolution_def)

lemma verifyAllLaws_pure:
  assumes "evolve laws = (\<lambda>s e. ret (ev s e))" "project laws = (\<lambda>v e. ret (pr v e))"
    and "queries laws = (\<lambda>v. ret (q v))" "deriveView laws = (\<lambda>s. ret (dv s))"
    and "\<And>x y. typeof_answer insp x = typeof_answer insp y"
    and "generateEvents laws = ret arb"
  shows "\<exists>suite w'. verifyAllLaws insp laws w = (Inr suite, w')
           \<and> allPassed suite \<and> list_all passed (results suite)
           \<and> length (results suite) = 12
           \<and> law (hd (results suite)) = ''1. Purity''"
proof -
  have gen: "fst (generateEvents laws v) \<noteq> Inl Opaque" for v
    by (simp add: assms(6) ret_def)
  obtain a b c d e f g h i wa wd wg wi where
    runs: "verifyPurity insp laws w = (Inr a, wa)"
    "verifyFunctoriality insp laws wa = (Inr b, wa)"
    "verifyObservabilityNaturality insp laws wa = (Inr c, wa)"
    "verifyCQRSCommutativity insp laws wa = (Inr d, wd)"
    "verifyOutboxCommutativity insp laws wd = (Inr e, wd)"
    "verifyPushPullEquivalence insp laws wd = (Inr f, wd)"
    "verifyReplayDeterminism insp laws wd = (Inr g, wg)"
    "verifyIdempotence insp laws wg = (Inr h, wi)"
    "verifyCausalityOrdering insp laws wi = (Inr i, wi)"
    and run: "verifyAllLaws insp laws w
       = (Inr (make_suite [a, b, c, d, e, f, g, h, i,
                           verifyMonoidalAggregation laws,
                           verifyPullbackCorrectness laws,
                           verifyPushoutSchemaEvolution laws]), wi)"
    and name: "law a = ''1. Purity''"
    by (rule verifyAllLaws_results [OF gen, of insp w])
  let ?rs = "[a, b, c, d, e, f, g, h, i,
              verifyMonoidalAggregation laws,
              verifyPullbackCorrectness laws,
              verifyPushoutSchemaEvolution laws]"
  have pa: "passed a" by (rule verifyPurity_pure [OF assms(1,2,6) runs(1)])
  have pb: "passed b" by (rule verifyFunctoriality_passes [OF runs(2)])
  have pc: "passed c" by (rule verifyObservabilityNaturality_passes [OF runs(3)])
  have pd: "passed d" by (rule verifyCQRSCommutativity_pure [OF assms(1-6) runs(4)])
  have pe: "passed e" by (rule verifyOutboxCommutativity_passes [OF runs(5)])
  have pf: "passed f" by (rule verifyPushPullEquivalence_passes [OF runs(6)])
  have pg: "passed g" by (rule verifyReplayDeterminism_pure [OF assms(1,6) runs(7)])
  have ph: "passed h" by (rule verifyIdempotence_pure [OF assms(1,6) runs(8)])
  have pi: "passed i" by (rule verifyCausalityOrdering_passes [OF runs(9)])
  have all: "list_all passed ?rs"
    by (simp add: pa pb pc pd pe pf pg ph pi stub_passed)
  have p2: "allPassed (make_suite ?rs)"
    unfolding make_suite_fields by (rule all)
  have p3: "list_all passed (results (make_suite ?rs))"
    unfolding make_suite_fields by (rule all)
  have p4: "length (results (make_suite ?rs)) = 12"
    unfolding make_suite_fields by simp
  have p5: "law (hd (results (make_suite ?rs))) = ''1. Purity''"
    unfolding make_suite_fields list.sel by (rule name)
  show ?thesis
    by (intro exI [of _ "make_suite ?rs"] exI [of _ wi] conjI run p2 p3 p4 p5)
qed

lemma verifyLaws_pure:
  assumes "evolve spec = (\<lambda>s e. ret (ev s e))" "project spec = (\<lambda>v e. ret (pr v e))"
    and "queries spec = (\<lambda>v. ret (q v))" "deriveView spec = (\<lambda>s. ret (dv s))"
    and "\<And>x y. typeof_answer insp x = typeof_answer insp y"
    and "generateEvents spec = ret arb"
  shows "\<exists>w'. verifyLaws insp spec w = (Inr (spec\<lparr>lawsVerified := True\<rparr>), w')"
proof (cases "lawsVerified spec")
  case True
  then have "spec\<lparr>lawsVerified := True\<rparr> = spec" by simp
  with True show ?thesis by (simp add: verifyLaws_def ret_def)
next
  case False
  from verifyAllLaws_pure [of "DomainLaws.truncate spec" ev pr q dv insp arb w] assms
  obtain suite w' where
    run: "verifyAllLaws insp (DomainLaws.truncate spec) w = (Inr suite, w')"
    and ok: "allPassed suite"
    unfolding truncate_fields by blast
  from enforceLaws_after [OF run] ok
  obtain line where "enforceLaws insp (DomainLaws.truncate spec) w = (Inr line, w')"
    by simp
  with False show ?thesis
    by (simp add: verifyLaws_def jbind_def ret_def)
qed

lemma properties_ignore_decide:
  "purity_property insp (laws\<lparr>decide := dec\<rparr>) = purity_property insp laws"
  "cqrs_property insp (laws\<lparr>decide := dec\<rparr>) = cqrs_property insp laws"
  "replay_property insp (laws\<lparr>decide := dec\<rparr>) = replay_property insp laws"
  "idempotence_property insp (laws\<lparr>decide := dec\<rparr>) = idempotence_property insp laws"
  by (rule ext, simp add: purity_property_def cqrs_property_def replay_property_def
        idempotence_property_def)+

lemma checks_ignore_decide:
  "verifyPurity insp (laws\<lparr>decide := dec\<rparr>) = verifyPurity insp laws"
  "verifyFunctoriality insp (laws\<lparr>decide := dec\<rparr>) = verifyFunctoriality insp laws"
  "verifyObservabilityNaturality insp (laws\<lparr>decide := dec\<rparr>)
   = verifyObservabilityNaturality insp laws"
  "verifyCQRSCommutativity insp (laws\<lparr>decide := dec\<rparr>) = verifyCQRSCommutativity insp laws"
  "verifyOutboxCommutativity insp (laws\<lparr>decide := dec\<rparr>)
   = verifyOutboxCommutativity insp laws"
  "verifyPushPullEquivalence insp (laws\<lparr>decide := dec\<rparr>)
   = verifyPushPullEquivalence insp laws"
  "verifyReplayDeterminism insp (laws\<lparr>decide := dec\<rparr>) = verifyReplayDeterminism insp laws"
  "verifyIdempotence insp (laws\<lparr>decide := dec\<rparr>) = verifyIdempotence insp laws"
  "verifyCausalityOrdering insp (laws\<lparr>decide := dec\<rparr>) = verifyCausalityOrdering insp laws"
  "verifyMonoidalAggregation (laws\<lparr>decide := dec\<rparr>) = verifyMonoidalAggregation laws"
  "verifyPullbackCorrectness (laws\<lparr>decide := dec\<rparr>) = verifyPullbackCorrectness laws"
  "verifyPushoutSchemaEvolution (laws\<lparr>decide := dec\<rparr>) = verifyPushoutSchemaEvolution laws"
  unfolding verifyPurity_def verifyFunctoriality_def
        verifyObservabilityNaturality_def verifyCQRSCommutativity_def
        verifyOutboxCommutativity_def verifyPushPullEquivalence_def
        verifyReplayDeterminism_def verifyIdempotence_def verifyCausalityOrdering_def
        verifyMonoidalAggregation_def verifyPullbackCorrectness_def
        verifyPushoutSchemaEvolution_def properties_ignore_decide
  by simp_all

lemma verifyAllLaws_ignores_decide:
  "verifyAllLaws insp (laws\<lparr>decide := dec\<rparr>) = verifyAllLaws insp laws"
  unfolding verifyAllLaws_def checks_ignore_decide by (rule refl)

lemma clock_decide_differs:
  "fst (decide ClockSpec s c w) \<noteq> fst (decide ClockSpec s c (Suc w))"
  by (simp add: ClockSpec_def clock_decide_def)

lemma clock_fields:
  "evolve ClockSpec = (\<lambda>s e. ret (counter_step s e))"
  "project ClockSpec = (\<lambda>v e. ret (counter_step v e))"
  "queries ClockSpec = (\<lambda>v. ret v)"
  "deriveView ClockSpec = (\<lambda>s. ret s)"
  "generateEvents ClockSpec = ret counter_events"
  "\<not> lawsVerified ClockSpec"
  by (simp_all add: ClockSpec_def CounterSpec_def)

lemma counter_typeof: "typeof_answer counter_inspect x = typeof_answer counter_inspect y"
  by (simp add: counter_inspect_def)

section \<open>Runs on the concrete ports\<close>

lemmas run_defs =
  handle_def makeHandle_def httpHandle_def makeHttpHandle_def jbind_def ret_def throw_def
  try_catch_def in_world_def draw_def cmdId_of_def fresh_id_def already_processed_def
  mark_processed_def persistAndOutbox_def persistAndOutbox_url_def sql_query_def
  bus_publish_def cache_get_def cache_set_def dedupeBy_def directPublish_def
  DomainSpec_fold_def truthy_def property_key_def decide_url_def new_effects_def
  obj_get_def object_prototype_def

lemmas example_defs =
  CounterSpec_def ClockSpec_def BrokenSpec_def QuietSpec_def StrictSpec_def OpaqueSpec_def
  UngeneratedSpec_def counter_decide_def clock_decide_def
  counter_step_def counter_runtime_def url_runtime_def plain_deps_def cached_deps_def
  replay_deps_def failing_deps_def opaque_deps_def empty_cache_def full_cache_def start_def
  show_nat.simps digit10_def

lemma counter_run:
  "handle CounterSpec counter_runtime plain_deps 0 (CounterCommand (Some ''Increment'') 5) start
   = (Inr 5,
      \<lparr>world = 2, seen = {}, trace =
        [SqlQuery ''begin'' [] (Inr ()),
         SqlQuery ''insert into events(data) values ($1)'' [''[events]''] (Inr ()),
         SqlQuery ''insert into outbox(data) values ($1)'' [''[events]''] (Inr ()),
         SqlQuery ''commit'' [] (Inr ()),
         BusPublish (CounterEvent ''Incremented'' 5 (Some ''1'')) (Inr ())]\<rparr>)"
  by (simp add: run_defs example_defs)

lemma quiet_run:
  "handle QuietSpec counter_runtime plain_deps 0 (CounterCommand (Some ''Increment'') 5) start
   = (Inr 0, \<lparr>world = 1, seen = {}, trace = []\<rparr>)"
  by (simp add: run_defs example_defs)


lemma resolve_run:
  "makeHandle url_runtime cached_deps s0 (Resolve ''abc'' None) start
   = (Inr s0, \<lparr>world = 3, seen = {}, trace = [KvGet ''cmd:r0'' (Inr None)]\<rparr>)"
  by (simp add: run_defs example_defs s0_def)


lemma replay_counter_run:
  "handle CounterSpec counter_runtime replay_deps 0 (CounterCommand (Some ''Increment'') 5) start
   = (Inr 0, \<lparr>world = 1, seen = {}, trace = [KvGet ''cmd:r0'' (Inr (Some ''1''))]\<rparr>)"
  by (simp add: run_defs example_defs)


lemma replay_create_run:
  "makeHandle url_runtime replay_deps s0
     (Create ''https://x.com'' (Some ''abc'') None (Some ''c1'')) start
   = (Inr s0, \<lparr>world = 0, seen = {}, trace = [KvGet ''cmd:c1'' (Inr (Some ''1''))]\<rparr>)"
  by (simp add: run_defs example_defs starts_with_def)

lemma strict_http_run:
  "httpHandle StrictSpec counter_runtime cached_deps 0 (- 1) start
   = (Inr (0, [(''success'', JBool False), (''error'', JStr ''negative''), (''status'', JNum 400)]),
      start)"
  by (simp add: run_defs example_defs)

lemma counter_http_run:
  "httpHandle CounterSpec counter_runtime cached_deps 0 7 start
   = (Inr (0, [(''success'', JBool False), (''error'', JStr ''Invalid command: {command}''),
               (''status'', JNum 400)]),
      start)"
  by (simp add: run_defs example_defs)

lemma bad_url_http_run:
  "makeHttpHandle url_runtime cached_deps s0 (Raw (JNum 3) JUndefined JUndefined JUndefined) start
   = (Inr (s0, [(''error'', JStr ''Invalid URL''), (''status'', JNum 400)]), start)"
  by (simp add: run_defs example_defs)

lemma good_url_http_run:
  "fst (makeHttpHandle url_runtime cached_deps s0
          (Raw (JStr ''https://x.com'') (JStr ''abc'') JUndefined JUndefined) start)
   = Inr (\<lparr>version = 1, byShort = [(''abc'', ''https://x.com'')],
            byLong = [(''https://x.com'', ''abc'')], active = {''abc''}\<rparr>,
          [(''success'', JBool True), (''short'', JStr ''abc''),
           (''url'', JStr ''https://short.ly/abc''), (''status'', JNum 200)])"
  by (simp add: run_defs example_defs s0_def starts_with_def obj_set_def
        obj_keys_def is_array_index_def is_digit_def)




lemma failing_http_run:
  "makeHttpHandle url_runtime failing_deps s0
     (Raw (JStr ''https://x.com'') (JStr ''abc'') JUndefined JUndefined) start
   = (Inr (s0, [(''error'', JStr ''disk full''), (''status'', JNum 500)]),
      \<lparr>world = 2, seen = {}, trace =
        [SqlQuery ''begin'' [] (Inr ()),
         SqlQuery ''insert into events(data) values ($1)'' [''[events]'']
           (Inl (Error ''disk full''))]\<rparr>)"
  by (simp add: run_defs example_defs s0_def starts_with_def)



text \<open>An alias that names a member of \<open>Object.prototype\<close> is taken from the start.\<close>

lemma inherited_alias_run:
  "decide_events s0 (Create ''https://x.com'' (Some ''constructor'') None None) eid ts
   = [CustomTaken ''constructor'' eid ts]"
  by (simp add: s0_def truthy_def property_key_def obj_get_def object_prototype_def)

section \<open>Replay: fold over a concatenation\<close>

text \<open>
  C2. Folding \<open>ys\<close> from the result of folding \<open>xs\<close> equals folding \<open>xs @ ys\<close>
  from the seed, for \<open>evolve\<close> from any state seed and for \<open>project\<close> from any
  view seed.
\<close>

theorem fold_associativity:
  "fold_spec evolve' (fold_spec evolve' s0' xs) ys = fold_spec evolve' s0' (xs @ ys)
   \<and> fold_spec project' (fold_spec project' v0' xs) ys = fold_spec project' v0' (xs @ ys)"
  by (simp add: fold_spec_append)

section \<open>The version counter of the URL shortener\<close>

lemma evolve_url_version: "version s \<le> version (evolve_url s e)"
  by (cases e) (simp_all add: Let_def)

lemma fold_evolve_url_version: "version s \<le> version (fold_spec evolve_url s E)"
proof (induction E arbitrary: s)
  case Nil
  show ?case by simp
next
  case (Cons e E)
  have "version s \<le> version (evolve_url s e)" by (rule evolve_url_version)
  also have "\<dots> \<le> version (fold_spec evolve_url (evolve_url s e) E)" by (rule Cons.IH)
  finally show ?case by simp
qed

text \<open>
  C10. In the URL shortener, \<open>evolve\<close> never lowers the version of a state, and so
  the version after replaying any event sequence from \<open>s0\<close> (or from any state) is at
  least the version at the start.
\<close>

theorem version_monotone:
  "version s \<le> version (evolve_url s e)
   \<and> version s0 \<le> version (fold_spec evolve_url s0 E)
   \<and> version s \<le> version (fold_spec evolve_url s E)"
  by (simp add: evolve_url_version fold_evolve_url_version)

section \<open>What handle returns\<close>




section \<open>A command that fails validation\<close>

text \<open>
  C6. When \<open>validate(c)\<close> is \<open>false\<close>, \<open>handle\<close> throws
  \<open>Invalid command: <the command as JSON>\<close> and leaves the state of the system as
  \<open>validate\<close> left it: nothing is added to the log of port calls (no query, no cache
  read or write, no publish) and the set of seen event ids is unchanged. The same holds of
  \<open>makeHandle\<close>, whose \<open>validate\<close> is pure.
\<close>

theorem invalid_command_no_effects:
  "(validate spec c (world st) = (Inr False, w')
     \<longrightarrow> handle spec rt d s c st
           = (Inl (Error (''Invalid command: '' @ json_command rt c)), st\<lparr>world := w'\<rparr>)
         \<and> new_effects st (snd (handle spec rt d s c st)) = [])
   \<and> (\<not> validate_url cu
     \<longrightarrow> makeHandle rtu du su cu stu = (Inl (Error (''Invalid command: '' @ json_command rtu cu)), stu)
         \<and> new_effects stu (snd (makeHandle rtu du su cu stu)) = [])"
  by (simp add: handle_def makeHandle_def jbind_def in_world_def throw_def new_effects_def)

theorem invalid_command_no_effects_witness:
  "validate CounterSpec (CounterCommand (Some ''Reset'') 5)
     (world (start :: (counter_event, nat) sys)) = (Inr False, 0)
   \<and> handle CounterSpec counter_runtime cached_deps 0 (CounterCommand (Some ''Reset'') 5) start
       = (Inl (Error ''Invalid command: {command}''), start)
   \<and> new_effects start
        (snd (handle CounterSpec counter_runtime cached_deps 0
                (CounterCommand (Some ''Reset'') 5) start)) = []
   \<and> \<not> validate_url (Create ''ftp://x.com'' None None None)
   \<and> makeHandle url_runtime cached_deps s0 (Create ''ftp://x.com'' None None None) start
       = (Inl (Error ''Invalid command: {command}''), start)
   \<and> new_effects start
        (snd (makeHandle url_runtime cached_deps s0 (Create ''ftp://x.com'' None None None)
                start)) = []"
proof -
  have v: "validate CounterSpec (CounterCommand (Some ''Reset'') 5)
             (world (start :: (counter_event, nat) sys)) = (Inr False, 0)"
    by (simp add: CounterSpec_def ret_def start_def)
  have u: "\<not> validate_url (Create ''ftp://x.com'' None None None)"
    by (simp add: starts_with_def)
  have j: "json_command counter_runtime (CounterCommand (Some ''Reset'') 5) = ''{command}''"
          "json_command url_runtime (Create ''ftp://x.com'' None None None) = ''{command}''"
    by (simp_all add: counter_runtime_def url_runtime_def)
  have w: "start\<lparr>world := 0\<rparr> = (start :: ('e, nat) sys)"
    by (simp add: start_def)
  note inst = invalid_command_no_effects
         [where spec = CounterSpec and c = "CounterCommand (Some ''Reset'') 5" and st = start
            and w' = 0 and rt = counter_runtime and d = cached_deps and s = 0
            and cu = "Create ''ftp://x.com'' None None None" and rtu = url_runtime
            and du = cached_deps and su = s0 and stu = start]
  note applied = inst [unfolded j w]
  from v applied have
    "handle CounterSpec counter_runtime cached_deps 0 (CounterCommand (Some ''Reset'') 5) start
       = (Inl (Error ''Invalid command: {command}''), start)
     \<and> new_effects start
          (snd (handle CounterSpec counter_runtime cached_deps 0
                  (CounterCommand (Some ''Reset'') 5) start)) = []"
    by (simp add: new_effects_def)
  moreover from u applied have
    "makeHandle url_runtime cached_deps s0 (Create ''ftp://x.com'' None None None) start
       = (Inl (Error ''Invalid command: {command}''), start)
     \<and> new_effects start
          (snd (makeHandle url_runtime cached_deps s0 (Create ''ftp://x.com'' None None None)
                  start)) = []"
    by (simp add: new_effects_def)
  ultimately show ?thesis using v u by blast
qed

section \<open>The idempotency cache\<close>



section \<open>The HTTP handlers and what they catch\<close>




section \<open>The transaction around persist and outbox\<close>

text \<open>
  C8 asks that a failed write inside the transaction is rolled back before the error
  propagates. On a store that accepts \<open>begin\<close> and rejects the insert, \<open>makeHandle\<close>
  (src/app/handlers.ts) issues \<open>begin\<close> and the insert and throws: no \<open>rollback\<close>
  follows, the transaction stays open. The generic \<open>handle\<close> on the same store issues
  the \<open>rollback\<close>.
\<close>

theorem makeHandle_leaves_transaction_open:
  "makeHandle url_runtime failing_deps s0
     (Create ''https://x.com'' (Some ''abc'') None (Some ''c1'')) start
   = (Inl (Error ''disk full''),
      \<lparr>world = 1, seen = {}, trace =
        [SqlQuery ''begin'' [] (Inr ()),
         SqlQuery ''insert into events(data) values ($1)'' [''[events]''] (Inl (Error ''disk full''))]\<rparr>)
   \<and> handle CounterSpec counter_runtime failing_deps 0 (CounterCommand (Some ''Increment'') 5) start
   = (Inl (Error ''disk full''),
      \<lparr>world = 2, seen = {}, trace =
        [SqlQuery ''begin'' [] (Inr ()),
         SqlQuery ''insert into events(data) values ($1)'' [''[events]''] (Inl (Error ''disk full'')),
         SqlQuery ''rollback'' [] (Inr ())]\<rparr>)"
  by (simp add: run_defs example_defs s0_def starts_with_def)

section \<open>The suite of twelve results and its enforcement\<close>




section \<open>Checks 10, 11 and 12\<close>

text \<open>
  C4. The checks 10 (Monoidal Aggregation), 11 (Pullback Correctness) and 12 (Pushout
  Schema Evolution) report \<open>passed = true\<close> for every set of laws: they call none of
  the domain's functions and draw nothing from its generators. In every suite that
  \<open>verifyAllLaws\<close> returns, from any world and for any set of laws, the last three
  results carry these three names and have all passed; so no domain specification makes
  one of these checks return \<open>passed = false\<close>.
\<close>

theorem stub_checks_always_pass:
  "passed (verifyMonoidalAggregation laws)
   \<and> passed (verifyPullbackCorrectness laws)
   \<and> passed (verifyPushoutSchemaEvolution laws)
   \<and> (verifyAllLaws insp laws w = (Inr suite, w')
       \<longrightarrow> map law (drop 9 (results suite))
             = [''10. Monoidal Aggregation'', ''11. Pullback Correctness'',
                ''12. Pushout Schema Evolution'']
           \<and> list_all passed (drop 9 (results suite)))"
proof (intro conjI impI stub_passed)
  assume run: "verifyAllLaws insp laws w = (Inr suite, w')"
  from verifyAllLaws_returned [OF run] obtain a b c d e f g h i where
    "suite = make_suite [a, b, c, d, e, f, g, h, i,
                           verifyMonoidalAggregation laws,
                           verifyPullbackCorrectness laws,
                           verifyPushoutSchemaEvolution laws]"
    by blast
  then have tail: "drop 9 (results suite)
              = [verifyMonoidalAggregation laws, verifyPullbackCorrectness laws,
                 verifyPushoutSchemaEvolution laws]"
    by (simp add: make_suite_fields)
  show "map law (drop 9 (results suite))
             = [''10. Monoidal Aggregation'', ''11. Pullback Correctness'',
                ''12. Pushout Schema Evolution'']"
    unfolding tail list.map stub_laws by (rule refl)
  show "list_all passed (drop 9 (results suite))"
    unfolding tail by (simp add: stub_passed)
qed

text \<open>The domain whose \<open>evolve\<close> throws: its first check fails, its last three pass.\<close>

theorem stub_checks_always_pass_witness:
  "\<exists>suite w'.
     verifyAllLaws counter_inspect BrokenSpec 0 = (Inr suite, w')
     \<and> \<not> passed (hd (results suite))
     \<and> map law (drop 9 (results suite))
         = [''10. Monoidal Aggregation'', ''11. Pullback Correctness'',
            ''12. Pushout Schema Evolution'']
     \<and> list_all passed (drop 9 (results suite))"
proof -
  have gen: "fst (generateEvents BrokenSpec v) \<noteq> Inl Opaque" for v
    by (simp add: broken_generate)
  obtain a b c d e f g h i wa wd wg wh where
    first: "verifyPurity counter_inspect BrokenSpec 0 = (Inr a, wa)"
    and run: "verifyAllLaws counter_inspect BrokenSpec 0
       = (Inr (make_suite [a, b, c, d, e, f, g, h, i,
                           verifyMonoidalAggregation BrokenSpec,
                           verifyPullbackCorrectness BrokenSpec,
                           verifyPushoutSchemaEvolution BrokenSpec]), wh)"
    by (rule verifyAllLaws_results [OF gen, of counter_inspect 0])
  let ?suite = "make_suite [a, b, c, d, e, f, g, h, i,
                           verifyMonoidalAggregation BrokenSpec,
                           verifyPullbackCorrectness BrokenSpec,
                           verifyPushoutSchemaEvolution BrokenSpec]"
  from first have "\<not> passed a" by (auto simp: broken_purity)
  then have p2: "\<not> passed (hd (results ?suite))"
    by (simp add: make_suite_fields)
  from stub_checks_always_pass [of BrokenSpec counter_inspect 0 ?suite wh] run
  have p3: "map law (drop 9 (results ?suite))
         = [''10. Monoidal Aggregation'', ''11. Pullback Correctness'',
            ''12. Pushout Schema Evolution'']"
    and p4: "list_all passed (drop 9 (results ?suite))"
    by blast+
  show ?thesis
    by (intro exI [of _ ?suite] exI [of _ wh] conjI run p2 p3 p4)
qed

section \<open>A non-deterministic decide\<close>

text \<open>
  C5. The clock domain is the counter domain with only \<open>decide\<close> replaced, by one that
  returns events of different content on two successive calls with the same state and
  command. No check calls \<open>decide\<close>: the verification of the clock domain is the
  verification of the counter domain. From every world it returns a suite in which all
  laws passed, the first result being named \<open>1. Purity\<close> and passed, and \<open>verifyLaws\<close>
  returns normally with the flag set. So \<open>verifyLaws\<close> does not fail on this
  non-deterministic \<open>decide\<close>, and Purity is not reported as failing.
\<close>

theorem nondeterministic_decide_passes:
  "fst (decide ClockSpec s c w) \<noteq> fst (decide ClockSpec s c (Suc w))
   \<and> verifyAllLaws counter_inspect ClockSpec = verifyAllLaws counter_inspect CounterSpec
   \<and> (\<exists>suite w'. verifyAllLaws counter_inspect ClockSpec w = (Inr suite, w')
         \<and> allPassed suite
         \<and> law (hd (results suite)) = ''1. Purity''
         \<and> passed (hd (results suite)))
   \<and> (\<exists>w'. verifyLaws counter_inspect ClockSpec w
              = (Inr (ClockSpec\<lparr>lawsVerified := True\<rparr>), w'))"
proof -
  have p2: "verifyAllLaws counter_inspect ClockSpec = verifyAllLaws counter_inspect CounterSpec"
    unfolding ClockSpec_def by (rule verifyAllLaws_ignores_decide)
  from verifyAllLaws_pure
         [of ClockSpec counter_step counter_step "\<lambda>v. v" "\<lambda>s. s" counter_inspect
             counter_events w,
          OF clock_fields(1-4) counter_typeof clock_fields(5)]
  obtain suite w' where
    run: "verifyAllLaws counter_inspect ClockSpec w = (Inr suite, w')"
    and ok: "allPassed suite" and every: "list_all passed (results suite)"
    and len: "length (results suite) = 12"
    and name: "law (hd (results suite)) = ''1. Purity''"
    by (elim exE conjE)
  from len have "results suite \<noteq> []" by auto
  then have "hd (results suite) \<in> set (results suite)" by simp
  with every have first: "passed (hd (results suite))"
    unfolding list_all_iff by blast
  have p3: "\<exists>suite w'. verifyAllLaws counter_inspect ClockSpec w = (Inr suite, w')
         \<and> allPassed suite
         \<and> law (hd (results suite)) = ''1. Purity''
         \<and> passed (hd (results suite))"
    by (intro exI [of _ suite] exI [of _ w'] conjI run ok name first)
  have p4: "\<exists>w'. verifyLaws counter_inspect ClockSpec w
              = (Inr (ClockSpec\<lparr>lawsVerified := True\<rparr>), w')"
    by (rule verifyLaws_pure
          [of ClockSpec counter_step counter_step "\<lambda>v. v" "\<lambda>s. s" counter_inspect
              counter_events w,
           OF clock_fields(1-4) counter_typeof clock_fields(5)])
  show ?thesis
    by (intro conjI clock_decide_differs p2 p3 p4)
qed

end
